theory Spec2Isabelle
  imports Main "HOL-Library.Sublist"
begin

section \<open>The SSHFS mount handler of multipass\<close>

text \<open>
  A shallow embedding of \<^verbatim>\<open>src/sshfs_mount/sshfs_mount_handler.cpp\<close>. The handler talks to
  three collaborators that live outside that file: the virtual machine and its SSH session,
  the local \<^verbatim>\<open>sshfs_server\<close> child process, and the logger. Each collaborator is a value the
  environment supplies; every interaction the handler has with one of them is appended, in
  program order, to a trace of events, so that statements about what was called, how often and
  in which order are statements about a list.
\<close>

subsection \<open>Text helpers\<close>

definition nl :: string where
  "nl = [CHR 0x0A]"

definition quoted :: "string \<Rightarrow> string" where
  "quoted s = [CHR 0x27] @ s @ [CHR 0x27]"

definition dquoted :: "string \<Rightarrow> string" where
  "dquoted s = [CHR 0x22] @ s @ [CHR 0x22]"

text \<open>\<^verbatim>\<open>QByteArray::contains\<close>: the needle occurs as a contiguous run of bytes.\<close>

fun contains :: "string \<Rightarrow> string \<Rightarrow> bool" where
  "contains [] needle = (needle = [])"
| "contains (c # cs) needle = (prefix needle (c # cs) \<or> contains cs needle)"

subsection \<open>Data\<close>

datatype Level = error_level | warning | info | debug

definition category :: string where
  "category = ''sshfs-mount-handler''"

record VMMount =
  source_path :: string
  uid_mappings :: "(int \<times> int) list"
  gid_mappings :: "(int \<times> int) list"

text \<open>
  \<^verbatim>\<open>SSHFSConfig\<close> is initialised positionally by the constructor; only the member \<^verbatim>\<open>host\<close> is
  named in the source. The other fields are named after the value they receive.
\<close>

record SSHFSConfig =
  host :: string
  port :: int
  username :: string
  instance_name :: string
  private_key :: string
  source :: string
  target_path :: string
  uid_map :: "(int \<times> int) list"
  gid_map :: "(int \<times> int) list"

text \<open>
  Modelled from the spec: \<^verbatim>\<open>ProcessState\<close> is declared outside the source file. Section 3 of
  the specification gives it an optional exit code, a structural error flag and a
  human-readable failure text; \<^verbatim>\<open>completed_successfully()\<close> is kept as one more answer of the
  object. An optional converts to \<^verbatim>\<open>true\<close> exactly when it holds a value.
\<close>

record ProcessState =
  exit_code :: "int option"
  error :: bool
  failure_message :: string
  completed_successfully :: bool

type_synonym log_record = "Level \<times> string \<times> string"

datatype event =
    Log Level string string
  | SshHostname
  | OpenSession string int string
  | Exec string
  | Write string
  | MakeProcess SSHFSConfig
  | ProcessStart
  | Terminate
  | WaitForFinished nat

text \<open>
  The exceptions that travel through the file. \<^verbatim>\<open>null_dereference\<close> stands for the undefined
  behaviour of calling through the empty \<^verbatim>\<open>unique_ptr\<close>; it is not a C++ exception and no
  \<^verbatim>\<open>catch\<close> clause stops it. \<^verbatim>\<open>session_failure\<close> is whatever the constructor of \<^verbatim>\<open>SSHSession\<close>
  throws.
\<close>

datatype failure =
    runtime_error string
  | SSHFSMissingError
  | ExitlessSSHProcessException
  | session_failure string
  | null_dereference

text \<open>
  The result of \<^verbatim>\<open>session.exec(cmd)\<close>. \<^verbatim>\<open>ssh_exit_code p t\<close> is \<^verbatim>\<open>p.exit_code(t)\<close>: the exit code
  when the remote command ends within \<^verbatim>\<open>t\<close> milliseconds, and \<^verbatim>\<open>None\<close> when the call throws
  \<^verbatim>\<open>ExitlessSSHProcessException\<close> instead.
\<close>

record SSHProcess =
  ssh_exit_code :: "nat \<Rightarrow> int option"
  std_output :: string
  std_error :: string

type_synonym SSHSession = "string \<Rightarrow> SSHProcess"

text \<open>
  What the child process does while the handler waits for it. \<^verbatim>\<open>ReadyReadStandardOutput bs\<close>:
  the bytes \<^verbatim>\<open>bs\<close> arrive on standard output and the signal of that name is emitted.
  \<^verbatim>\<open>Finished st\<close> and \<^verbatim>\<open>ErrorOccurred e msg st\<close>: the signal is emitted with these arguments, and
  \<^verbatim>\<open>process_state()\<close> answers \<^verbatim>\<open>st\<close> from then on.
\<close>

datatype proc_event =
    ReadyReadStandardOutput string
  | ReadyReadStandardError string
  | Finished ProcessState
  | ErrorOccurred string string ProcessState

text \<open>
  \<^verbatim>\<open>mp::Process\<close> wraps a \<^verbatim>\<open>QProcess\<close>. The two buffers hold the bytes that have arrived and
  have not been read; \<^verbatim>\<open>read_all_standard_output\<close> and \<^verbatim>\<open>read_all_standard_error\<close> return a
  buffer and leave it empty, as \<^verbatim>\<open>QProcess::readAllStandardOutput\<close> does. \<^verbatim>\<open>pending\<close> is the
  script of the child, \<^verbatim>\<open>finish_delay\<close> the time in milliseconds it takes to finish once asked
  to terminate (\<^verbatim>\<open>None\<close>: it never does). The two \<^verbatim>\<open>conn\<close> fields are the slots connected to
  the signals \<^verbatim>\<open>finished\<close> and \<^verbatim>\<open>error_occurred\<close>: what they write to the log when the signal is
  emitted.
\<close>

record Process =
  program :: string
  arguments :: "string list"
  pending :: "proc_event list"
  stdout_buf :: string
  stderr_buf :: string
  pstate :: ProcessState
  finish_delay :: "nat option"
  finished_conn :: "ProcessState \<Rightarrow> log_record list"
  error_occurred_conn :: "string \<Rightarrow> string \<Rightarrow> log_record list"

record VirtualMachine =
  vm_name :: string
  ssh_port :: int
  ssh_username :: string
  ssh_hostname :: "nat \<Rightarrow> string"

text \<open>
  Everything the file uses and does not define. \<^verbatim>\<open>ssh_hostname vm n\<close> is the answer of the
  call number \<^verbatim>\<open>n\<close> of \<^verbatim>\<open>vm->ssh_hostname()\<close>. \<^verbatim>\<open>open_session\<close> is the constructor of
  \<^verbatim>\<open>SSHSession\<close> (\<^verbatim>\<open>Inl\<close>: it throws). \<^verbatim>\<open>default_exit_timeout\<close> is the default argument of
  \<^verbatim>\<open>SSHProcess::exit_code\<close>.
\<close>

record env =
  vm :: VirtualMachine
  private_key_as_base64 :: string
  open_session :: "string \<Rightarrow> int \<Rightarrow> string \<Rightarrow> string + SSHSession"
  default_exit_timeout :: nat
  trim_end :: "string \<Rightarrow> string"
  make_sshfs_server_process :: "SSHFSConfig \<Rightarrow> Process"
  what_SSHFSMissingError :: string
  what_ExitlessSSHProcessException :: string

subsection \<open>The free functions\<close>

definition log :: "Level \<Rightarrow> string \<Rightarrow> string \<Rightarrow> event list \<Rightarrow> event list" where
  "log lvl cat msg tr = tr @ [Log lvl cat msg]"

definition log_events :: "log_record list \<Rightarrow> event list" where
  "log_events recs = map (\<lambda>(lvl, cat, msg). Log lvl cat msg) recs"

definition exec :: "SSHSession \<Rightarrow> string \<Rightarrow> event list \<Rightarrow> SSHProcess \<times> event list" where
  "exec session cmd tr = (session cmd, tr @ [Exec cmd])"

definition snap_missing_message :: "string \<Rightarrow> string" where
  "snap_missing_message name =
     ''Snap support needs to be installed in '' @ quoted name @ '' in order to support mounts.'' @ nl @
     ''Please see https://docs.snapcraft.io/installing-snapd for information on'' @ nl @
     ''how to install snap support for your instance's distribution.'' @ nl @ nl @
     ''If your distribution's instructions specify enabling classic snap support,'' @ nl @
     ''please do that as well.'' @ nl @ nl @
     ''Alternatively, install `sshfs` manually inside the instance.''"

definition classic_missing_message :: "string \<Rightarrow> string" where
  "classic_missing_message name =
     ''Classic snap support is not enabled for '' @ quoted name @ ''!'' @ nl @ nl @
     ''Please see https://docs.snapcraft.io/installing-snapd for information on'' @ nl @
     ''how to enable classic snap support for your instance's distribution.''"

definition has_sshfs ::
  "env \<Rightarrow> string \<Rightarrow> SSHSession \<Rightarrow> event list \<Rightarrow> (failure + bool) \<times> event list" where
  "has_sshfs e name session tr0 =
     (let (p1, tr1) = exec session ''which snap'' tr0 in
      (case ssh_exit_code p1 (default_exit_timeout e) of
         None \<Rightarrow> (Inl ExitlessSSHProcessException, tr1)
       | Some c1 \<Rightarrow>
          (if c1 \<noteq> 0 then
             (Inl (runtime_error (snap_missing_message name)),
              log warning category (''Snap support is not installed in '' @ quoted name) tr1)
           else
             (let (p2, tr2) = exec session ''sudo snap list multipass-sshfs'' tr1 in
              (case ssh_exit_code p2 (default_exit_timeout e) of
                 None \<Rightarrow> (Inl ExitlessSSHProcessException, tr2)
               | Some c2 \<Rightarrow>
                  (if c2 = 0 then
                     (Inr True,
                      log debug category
                        (''The multipass-sshfs snap is already installed on '' @ quoted name) tr2)
                   else
                     (let (p3, tr3) = exec session ''[ -e /snap ]'' tr2 in
                      (case ssh_exit_code p3 (default_exit_timeout e) of
                         None \<Rightarrow> (Inl ExitlessSSHProcessException, tr3)
                       | Some c3 \<Rightarrow>
                          (if c3 \<noteq> 0 then
                             (Inl (runtime_error (classic_missing_message name)),
                              log warning category
                                (''Classic snap support symlink is needed in '' @ quoted name)
                                tr3)
                           else (Inr False, tr3))))))))))"

definition install_sshfs_for ::
  "env \<Rightarrow> string \<Rightarrow> SSHSession \<Rightarrow> nat \<Rightarrow> event list \<Rightarrow> (failure + unit) \<times> event list" where
  "install_sshfs_for e name session timeout tr0 =
     (let tr1 = log info category
                  (''Installing the multipass-sshfs snap in '' @ quoted name) tr0;
          (proc, tr2) = exec session ''sudo snap install multipass-sshfs'' tr1 in
      (case ssh_exit_code proc timeout of
         None \<Rightarrow>
           (Inl SSHFSMissingError,
            log info category
              (''Timeout while installing 'multipass-sshfs' in '' @ quoted name) tr2)
       | Some c \<Rightarrow>
           (if c \<noteq> 0 then
              (let error_msg = std_error proc in
               (Inl SSHFSMissingError,
                log warning category
                  (''Failed to install 'multipass-sshfs': '' @ trim_end e error_msg) tr2))
            else (Inr (), tr2))))"

subsection \<open>Waiting for the child\<close>

definition read_all_standard_output :: "Process \<Rightarrow> string \<times> Process" where
  "read_all_standard_output p = (stdout_buf p, p\<lparr>stdout_buf := []\<rparr>)"

definition read_all_standard_error :: "Process \<Rightarrow> string \<times> Process" where
  "read_all_standard_error p = (stderr_buf p, p\<lparr>stderr_buf := []\<rparr>)"

text \<open>
  \<^verbatim>\<open>event_loop.exec()\<close> with the two connections made by \<^verbatim>\<open>start_and_block_until_connected\<close>:
  the loop hands the child's notifications to the connected slots one at a time and returns
  once a slot has called \<^verbatim>\<open>quit\<close>. The slots connected earlier by \<^verbatim>\<open>start_impl\<close> run first. The
  first component of the result tells whether \<^verbatim>\<open>exec\<close> returned: when the child has nothing
  more to say and nobody called \<^verbatim>\<open>quit\<close>, the loop waits forever and the answer is \<^verbatim>\<open>False\<close>,
  with the process and the trace as they are at that point.
\<close>

fun event_loop_exec ::
  "proc_event list \<Rightarrow> Process \<Rightarrow> event list \<Rightarrow> bool \<times> Process \<times> event list" where
  "event_loop_exec [] p tr = (False, p, tr)"
| "event_loop_exec (ReadyReadStandardOutput bs # es) p tr =
     (let (out, p') = read_all_standard_output (p\<lparr>pending := es, stdout_buf := stdout_buf p @ bs\<rparr>)
      in if contains out ''Connected'' then (True, p', tr) else event_loop_exec es p' tr)"
| "event_loop_exec (ReadyReadStandardError bs # es) p tr =
     event_loop_exec es (p\<lparr>pending := es, stderr_buf := stderr_buf p @ bs\<rparr>) tr"
| "event_loop_exec (Finished exit_state # es) p tr =
     (True, p\<lparr>pending := es, pstate := exit_state\<rparr>, tr @ log_events (finished_conn p exit_state))"
| "event_loop_exec (ErrorOccurred err error_string st # es) p tr =
     event_loop_exec es (p\<lparr>pending := es, pstate := st\<rparr>) (tr @ log_events (error_occurred_conn p err error_string))"

definition start_and_block_until_connected ::
  "Process \<Rightarrow> event list \<Rightarrow> bool \<times> Process \<times> event list" where
  "start_and_block_until_connected p tr = event_loop_exec (pending p) p (tr @ [ProcessStart])"

subsection \<open>The handler\<close>

text \<open>
  Modelled from the spec: the life cycle of section 4.4, kept by the base class
  \<^verbatim>\<open>MountHandler\<close>, which is not among the sources.
\<close>

datatype lifecycle = Constructed | Starting | Running | Stopping | Stopped

text \<open>
  The members of the handler object, followed by the two parts of the world its methods
  change: the trace and the number of \<^verbatim>\<open>ssh_hostname\<close> calls made so far.
\<close>

record state =
  target :: string
  mount :: VMMount
  process :: "Process option"
  config :: SSHFSConfig
  phase :: lifecycle
  trace :: "event list"
  hostname_queries :: nat

datatype ServerVariant = null_server | server

definition call_ssh_hostname :: "env \<Rightarrow> state \<Rightarrow> string \<times> state" where
  "call_ssh_hostname e st =
     (ssh_hostname (vm e) (hostname_queries st),
      st\<lparr>trace := trace st @ [SshHostname], hostname_queries := Suc (hostname_queries st)\<rparr>)"

text \<open>\<^verbatim>\<open>QStringList::join\<close>.\<close>

fun join :: "string list \<Rightarrow> string \<Rightarrow> string" where
  "join [] sep = []"
| "join [x] sep = x"
| "join (x # y # ys) sep = x @ sep @ join (y # ys) sep"

text \<open>The constructor, run in a world with trace \<^verbatim>\<open>tr\<close> and \<^verbatim>\<open>n\<close> earlier host queries.\<close>

definition SSHFSMountHandler :: "env \<Rightarrow> string \<Rightarrow> VMMount \<Rightarrow> event list \<Rightarrow> nat \<Rightarrow> state" where
  "SSHFSMountHandler e tgt mnt tr n =
     \<lparr>target = tgt, mount = mnt, process = None,
      config = \<lparr>host = [], port = ssh_port (vm e), username = ssh_username (vm e),
                instance_name = vm_name (vm e), private_key = private_key_as_base64 e,
                source = source_path mnt, target_path = tgt,
                uid_map = uid_mappings mnt, gid_map = gid_mappings mnt\<rparr>,
      phase = Constructed,
      trace = log info category
                (''initializing mount '' @ source_path mnt @ '' => '' @ tgt @ '' in '' @
                 quoted (vm_name (vm e))) tr,
      hostname_queries = n\<rparr>"

definition visitor :: "ServerVariant \<Rightarrow> event list \<Rightarrow> event list" where
  "visitor srv tr =
     (case srv of
        null_server \<Rightarrow> tr
      | server \<Rightarrow> tr @ [Write ''Enabling support for mounting''])"

text \<open>\<^verbatim>\<open>start_impl\<close>, lines 131 to 144: the session, the probes and the installation.\<close>

definition start_impl_prepare ::
  "env \<Rightarrow> ServerVariant \<Rightarrow> nat \<Rightarrow> state \<Rightarrow> (failure + unit) \<times> state" where
  "start_impl_prepare e srv timeout st0 =
     (let (hostname, st1) = call_ssh_hostname e st0;
          st2 = st1\<lparr>trace := trace st1 @
                  [OpenSession hostname (ssh_port (vm e)) (ssh_username (vm e))]\<rparr>
      in case open_session e hostname (ssh_port (vm e)) (ssh_username (vm e)) of
           Inl msg \<Rightarrow> (Inl (session_failure msg), st2)
         | Inr session \<Rightarrow>
             (case has_sshfs e (vm_name (vm e)) session (trace st2) of
                (Inl f, tr3) \<Rightarrow> (Inl f, st2\<lparr>trace := tr3\<rparr>)
              | (Inr True, tr3) \<Rightarrow> (Inr (), st2\<lparr>trace := tr3\<rparr>)
              | (Inr False, tr3) \<Rightarrow>
                  (let tr4 = visitor srv tr3;
                       (r, tr5) = install_sshfs_for e (vm_name (vm e)) session timeout tr4
                   in (r, st2\<lparr>trace := tr5\<rparr>))))"

definition finished_observer :: "env \<Rightarrow> state \<Rightarrow> ProcessState \<Rightarrow> log_record list" where
  "finished_observer e st exit_state =
     (if completed_successfully exit_state then
        [(info, category,
          ''Mount '' @ dquoted (target st) @ '' in instance '' @ quoted (vm_name (vm e)) @
          '' has stopped'')]
      else
        [(warning, category,
          ''Mount '' @ dquoted (target st) @ '' in instance '' @ quoted (vm_name (vm e)) @
          '' has stopped unsuccessfully: '' @ failure_message exit_state)])"

definition error_observer ::
  "env \<Rightarrow> state \<Rightarrow> string \<Rightarrow> string \<Rightarrow> log_record list" where
  "error_observer e st err error_string =
     [(error_level, category,
       ''There was an error with sshfs_server for instance '' @ quoted (vm_name (vm e)) @
       '' with path '' @ dquoted (target st) @ '': '' @ err @ '' - '' @ error_string)]"

text \<open>
  The two \<^verbatim>\<open>QObject::connect\<close> calls of lines 150 to 168: each adds a slot after the ones the
  signal already has.
\<close>

definition connect_observers :: "env \<Rightarrow> state \<Rightarrow> Process \<Rightarrow> Process" where
  "connect_observers e st p0 =
     (let p1 = p0\<lparr>finished_conn := (\<lambda>exit_state.
                    finished_conn p0 exit_state @ finished_observer e st exit_state)\<rparr>
      in p1\<lparr>error_occurred_conn := (\<lambda>err error_string.
                error_occurred_conn p1 err error_string @
                error_observer e st err error_string)\<rparr>)"

text \<open>The two log records of lines 170 and 171.\<close>

definition program_message :: "Process \<Rightarrow> string" where
  "program_message p = ''process program '' @ quoted (program p)"

definition arguments_message :: "Process \<Rightarrow> string" where
  "arguments_message p = ''process arguments '' @ quoted (join (arguments p) '', '')"

text \<open>
  \<^verbatim>\<open>start_impl\<close>, lines 146 to 173: the host goes into the configuration, the process is made
  and observed, and the handler waits. The first component is \<^verbatim>\<open>False\<close> when the wait never
  ends.
\<close>

definition start_impl_launch :: "env \<Rightarrow> state \<Rightarrow> bool \<times> state" where
  "start_impl_launch e st0 =
     (let (hostname, st1) = call_ssh_hostname e st0;
          st2 = st1\<lparr>config := (config st1)\<lparr>host := hostname\<rparr>\<rparr>;
          p0 = make_sshfs_server_process e (config st2);
          st3 = st2\<lparr>trace := trace st2 @ [MakeProcess (config st2)]\<rparr>;
          p2 = connect_observers e st3 p0;
          tr4 = log info category (program_message p2) (trace st3);
          tr5 = log info category (arguments_message p2) tr4;
          (returned, p3, tr6) = start_and_block_until_connected p2 tr5
      in (returned, st3\<lparr>process := Some p3, trace := tr6\<rparr>))"

text \<open>\<^verbatim>\<open>start_impl\<close>, lines 175 to 181: the state of the process after the wait.\<close>

definition start_impl_check :: "state \<Rightarrow> (failure + unit) \<times> state" where
  "start_impl_check st =
     (case process st of
        None \<Rightarrow> (Inl null_dereference, st)
      | Some p \<Rightarrow>
          (let process_state = pstate p in
           if exit_code process_state = Some 9 then (Inl SSHFSMissingError, st)
           else if exit_code process_state \<noteq> None \<or> error process_state then
             (let (err, p') = read_all_standard_error p in
              (Inl (runtime_error (failure_message process_state @ '': '' @ err)),
               st\<lparr>process := Some p'\<rparr>))
           else (Inr (), st)))"

text \<open>
  \<^verbatim>\<open>start_impl\<close> as a whole. The result is \<^verbatim>\<open>None\<close> when the call never returns, \<^verbatim>\<open>Some (Inl f)\<close>
  when it throws \<^verbatim>\<open>f\<close> and \<^verbatim>\<open>Some (Inr ())\<close> when it returns.
\<close>

definition start_impl ::
  "env \<Rightarrow> ServerVariant \<Rightarrow> nat \<Rightarrow> state \<Rightarrow> (failure + unit) option \<times> state" where
  "start_impl e srv timeout st =
     (case start_impl_prepare e srv timeout st of
        (Inl f, st1) \<Rightarrow> (Some (Inl f), st1)
      | (Inr u, st1) \<Rightarrow>
          (case start_impl_launch e st1 of
             (False, st2) \<Rightarrow> (None, st2)
           | (True, st2) \<Rightarrow> (case start_impl_check st2 of (r, st3) \<Rightarrow> (Some r, st3))))"

definition wait_for_finished :: "nat \<Rightarrow> Process \<Rightarrow> bool" where
  "wait_for_finished msecs p = (case finish_delay p of None \<Rightarrow> False | Some t \<Rightarrow> t \<le> msecs)"

definition stop_impl :: "env \<Rightarrow> state \<Rightarrow> (failure + unit) \<times> state" where
  "stop_impl e st0 =
     (let st1 = st0\<lparr>trace := log info category
                   (''Stopping mount '' @ dquoted (target st0) @ '' in instance '' @
                    quoted (vm_name (vm e))) (trace st0)\<rparr>
      in case process st1 of
           None \<Rightarrow> (Inl null_dereference, st1)
         | Some p \<Rightarrow>
             (let st2 = st1\<lparr>trace := trace st1 @ [Terminate, WaitForFinished 5000]\<rparr> in
              if \<not> wait_for_finished 5000 p then
                (let (err, p') = read_all_standard_error p in
                 (Inl (runtime_error (''Failed to terminate SSHFS mount process: '' @ err)),
                  st2\<lparr>process := Some p'\<rparr>))
              else (Inr (), st2)))"

text \<open>
  Modelled from the spec: \<^verbatim>\<open>MountHandler::stop\<close>, the public operation of the base class, which
  is not among the sources. Section 4.4: stop moves the handler to \<^verbatim>\<open>Stopping\<close>, terminates with
  the fixed deadline, fails on a timeout and otherwise moves to \<^verbatim>\<open>Stopped\<close>; section 8: on a
  handler that is \<^verbatim>\<open>Stopped\<close> it does nothing.
\<close>

definition stop :: "env \<Rightarrow> state \<Rightarrow> (failure + unit) \<times> state" where
  "stop e st =
     (if phase st = Stopped then (Inr (), st)
      else case stop_impl e (st\<lparr>phase := Stopping\<rparr>) of
             (Inl f, st1) \<Rightarrow> (Inl f, st1)
           | (Inr u, st1) \<Rightarrow> (Inr u, st1\<lparr>phase := Stopped\<rparr>))"

definition what :: "env \<Rightarrow> failure \<Rightarrow> string" where
  "what e f =
     (case f of
        runtime_error msg \<Rightarrow> msg
      | SSHFSMissingError \<Rightarrow> what_SSHFSMissingError e
      | ExitlessSSHProcessException \<Rightarrow> what_ExitlessSSHProcessException e
      | session_failure msg \<Rightarrow> msg
      | null_dereference \<Rightarrow> [])"

text \<open>
  The destructor. Its first argument is the inherited \<^verbatim>\<open>stop\<close> it calls; the handler
  \<^verbatim>\<open>catch (const std::exception&)\<close> takes every exception of the file.
\<close>

definition SSHFSMountHandler_destructor ::
  "(state \<Rightarrow> (failure + unit) \<times> state) \<Rightarrow> env \<Rightarrow> state \<Rightarrow> (failure + unit) \<times> state" where
  "SSHFSMountHandler_destructor stop_fn e st =
     (case stop_fn st of
        (Inr u, st1) \<Rightarrow> (Inr (), st1)
      | (Inl null_dereference, st1) \<Rightarrow> (Inl null_dereference, st1)
      | (Inl f, st1) \<Rightarrow>
          (Inr (),
           st1\<lparr>trace := log warning category
                  (''Failed to gracefully stop mount '' @ dquoted (target st1) @
                   '' in instance '' @ quoted (vm_name (vm e)) @ '': '' @ what e f)
                  (trace st1)\<rparr>))"


subsection \<open>Reading a trace\<close>

text \<open>\<^verbatim>\<open>session.exec(cmd).exit_code()\<close>, the way each probe reads the remote exit code.\<close>

definition probe_exit :: "env \<Rightarrow> SSHSession \<Rightarrow> string \<Rightarrow> int option" where
  "probe_exit e session cmd = ssh_exit_code (session cmd) (default_exit_timeout e)"

text \<open>The remote commands of a trace, in the order they were run.\<close>

definition execs :: "event list \<Rightarrow> string list" where
  "execs tr = concat (map (\<lambda>ev. case ev of Exec cmd \<Rightarrow> [cmd] | _ \<Rightarrow> []) tr)"

text \<open>The progress replies and the runs of the install command, in order.\<close>

definition progress_and_install :: "event list \<Rightarrow> event list" where
  "progress_and_install tr =
     filter (\<lambda>ev. case ev of
                    Write msg \<Rightarrow> True
                  | Exec cmd \<Rightarrow> cmd = ''sudo snap install multipass-sshfs''
                  | _ \<Rightarrow> False) tr"

text \<open>The host queries of a trace, and the processes made and started.\<close>

definition host_queries :: "event list \<Rightarrow> nat" where
  "host_queries tr = length (filter (\<lambda>ev. ev = SshHostname) tr)"

definition launches :: "event list \<Rightarrow> event list" where
  "launches tr =
     filter (\<lambda>ev. case ev of MakeProcess cfg \<Rightarrow> True | ProcessStart \<Rightarrow> True | _ \<Rightarrow> False) tr"

definition terminations :: "event list \<Rightarrow> nat" where
  "terminations tr = length (filter (\<lambda>ev. ev = Terminate) tr)"

text \<open>
  A notification makes the wait return when it is \<^verbatim>\<open>finished\<close>, or when the bytes it
  announces hold the token.
\<close>

definition fires :: "proc_event \<Rightarrow> bool" where
  "fires ev =
     (case ev of
        ReadyReadStandardOutput bs \<Rightarrow> contains bs ''Connected''
      | Finished exit_state \<Rightarrow> True
      | _ \<Rightarrow> False)"

text \<open>What \<^verbatim>\<open>process_state()\<close> answers after a run of notifications, and the unread error text.\<close>

fun state_after :: "proc_event list \<Rightarrow> ProcessState \<Rightarrow> ProcessState" where
  "state_after [] s = s"
| "state_after (Finished exit_state # es) s = state_after es exit_state"
| "state_after (ErrorOccurred err error_string st # es) s = state_after es st"
| "state_after (ev # es) s = state_after es s"

fun stderr_of :: "proc_event list \<Rightarrow> string" where
  "stderr_of [] = []"
| "stderr_of (ReadyReadStandardError bs # es) = bs @ stderr_of es"
| "stderr_of (ev # es) = stderr_of es"

text \<open>The configurations handed to \<^verbatim>\<open>make_sshfs_server_process\<close>, and the hosts of the sessions opened.\<close>

definition made :: "event list \<Rightarrow> SSHFSConfig list" where
  "made tr = concat (map (\<lambda>ev. case ev of MakeProcess cfg \<Rightarrow> [cfg] | _ \<Rightarrow> []) tr)"

definition sessions :: "event list \<Rightarrow> string list" where
  "sessions tr = concat (map (\<lambda>ev. case ev of OpenSession h p u \<Rightarrow> [h] | _ \<Rightarrow> []) tr)"

text \<open>What the first part of \<^verbatim>\<open>start_impl\<close> appends to the trace.\<close>

definition prepare_events :: "env \<Rightarrow> ServerVariant \<Rightarrow> nat \<Rightarrow> state \<Rightarrow> event list" where
  "prepare_events e srv timeout st =
     [SshHostname,
      OpenSession (ssh_hostname (vm e) (hostname_queries st)) (ssh_port (vm e))
        (ssh_username (vm e))] @
     (case open_session e (ssh_hostname (vm e) (hostname_queries st)) (ssh_port (vm e))
             (ssh_username (vm e)) of
        Inl msg \<Rightarrow> []
      | Inr session \<Rightarrow>
          snd (has_sshfs e (vm_name (vm e)) session []) @
          (if fst (has_sshfs e (vm_name (vm e)) session []) = Inr False then
             visitor srv [] @ snd (install_sshfs_for e (vm_name (vm e)) session timeout [])
           else []))"

subsection \<open>Concrete scenarios\<close>

definition ssh_process :: "int option \<Rightarrow> string \<Rightarrow> string \<Rightarrow> SSHProcess" where
  "ssh_process c out err = \<lparr>ssh_exit_code = (\<lambda>t. c), std_output = out, std_error = err\<rparr>"

text \<open>
  A guest that answers the three probes and the install command with the given exit codes
  (\<^verbatim>\<open>None\<close>: no exit code in time).
\<close>

definition guest :: "int option \<Rightarrow> int option \<Rightarrow> int option \<Rightarrow> int option \<Rightarrow> SSHSession" where
  "guest a b c d cmd =
     (if cmd = ''which snap'' then ssh_process a ''/usr/bin/snap'' []
      else if cmd = ''sudo snap list multipass-sshfs'' then
        ssh_process b [] ''error: no matching snaps installed''
      else if cmd = ''[ -e /snap ]'' then ssh_process c [] []
      else if cmd = ''sudo snap install multipass-sshfs'' then
        ssh_process d [] ''error: cannot install''
      else ssh_process (Some 127) [] ''command not found'')"

definition running :: ProcessState where
  "running = \<lparr>exit_code = None, error = False, failure_message = [],
              completed_successfully = False\<rparr>"

definition exited :: "int \<Rightarrow> ProcessState" where
  "exited c = \<lparr>exit_code = Some c, error = False, failure_message = ''exit code'',
               completed_successfully = (c = 0)\<rparr>"

definition crashed :: ProcessState where
  "crashed = \<lparr>exit_code = None, error = True, failure_message = ''Process crashed'',
              completed_successfully = False\<rparr>"

definition child :: "proc_event list \<Rightarrow> nat option \<Rightarrow> SSHFSConfig \<Rightarrow> Process" where
  "child evs delay cfg =
     \<lparr>program = ''sshfs_server'', arguments = [host cfg, target_path cfg], pending = evs,
      stdout_buf = [], stderr_buf = [], pstate = running, finish_delay = delay,
      finished_conn = (\<lambda>exit_state. []), error_occurred_conn = (\<lambda>err error_string. [])\<rparr>"

definition test_vm :: VirtualMachine where
  "test_vm = \<lparr>vm_name = ''primary'', ssh_port = 22, ssh_username = ''ubuntu'',
              ssh_hostname = (\<lambda>n. if n = 0 then ''10.0.0.1'' else ''10.0.0.2'')\<rparr>"

definition test_env :: "string + SSHSession \<Rightarrow> proc_event list \<Rightarrow> nat option \<Rightarrow> env" where
  "test_env session evs delay =
     \<lparr>vm = test_vm, private_key_as_base64 = ''a2V5'',
      open_session = (\<lambda>h p u. session), default_exit_timeout = 5000,
      trim_end = (\<lambda>s. rev (dropWhile (\<lambda>c. c = CHR '' '' \<or> c = CHR 0x0A) (rev s))),
      make_sshfs_server_process = child evs delay,
      what_SSHFSMissingError = ''sshfs missing'',
      what_ExitlessSSHProcessException = ''no exit code''\<rparr>"

definition test_mount :: VMMount where
  "test_mount = \<lparr>source_path = ''/home/me/data'', uid_mappings = [(1000, 1000)],
                 gid_mappings = [(1000, 1000)]\<rparr>"

definition fresh :: "env \<Rightarrow> state" where
  "fresh e = SSHFSMountHandler e ''/mnt/data'' test_mount [] 0"

text \<open>
  A handler whose child is up: the process the environment makes, with \<^verbatim>\<open>err\<close> waiting on its
  standard error.
\<close>

definition mounted :: "env \<Rightarrow> string \<Rightarrow> state" where
  "mounted e err =
     (fresh e)\<lparr>process := Some ((make_sshfs_server_process e (config (fresh e)))
                                  \<lparr>stderr_buf := err\<rparr>),
               phase := Running\<rparr>"

section \<open>Properties\<close>

subsection \<open>Helper facts\<close>

lemma execs_append: "execs (xs @ ys) = execs xs @ execs ys"
  by (simp add: execs_def)

lemma execs_Nil: "execs [] = []"
  by (simp add: execs_def)

lemma has_sshfs_cases:
  "has_sshfs e name session tr =
    (case probe_exit e session ''which snap'' of
       None \<Rightarrow> (Inl ExitlessSSHProcessException, tr @ [Exec ''which snap''])
     | Some c1 \<Rightarrow>
        (if c1 \<noteq> 0 then
           (Inl (runtime_error (snap_missing_message name)),
            tr @ [Exec ''which snap'',
                  Log warning category (''Snap support is not installed in '' @ quoted name)])
         else
           (case probe_exit e session ''sudo snap list multipass-sshfs'' of
              None \<Rightarrow>
                (Inl ExitlessSSHProcessException,
                 tr @ [Exec ''which snap'', Exec ''sudo snap list multipass-sshfs''])
            | Some c2 \<Rightarrow>
               (if c2 = 0 then
                  (Inr True,
                   tr @ [Exec ''which snap'', Exec ''sudo snap list multipass-sshfs'',
                         Log debug category
                           (''The multipass-sshfs snap is already installed on '' @ quoted name)])
                else
                  (case probe_exit e session ''[ -e /snap ]'' of
                     None \<Rightarrow>
                       (Inl ExitlessSSHProcessException,
                        tr @ [Exec ''which snap'', Exec ''sudo snap list multipass-sshfs'',
                              Exec ''[ -e /snap ]''])
                   | Some c3 \<Rightarrow>
                      (if c3 \<noteq> 0 then
                         (Inl (runtime_error (classic_missing_message name)),
                          tr @ [Exec ''which snap'', Exec ''sudo snap list multipass-sshfs'',
                                Exec ''[ -e /snap ]'',
                                Log warning category
                                  (''Classic snap support symlink is needed in '' @ quoted name)])
                       else
                         (Inr False,
                          tr @ [Exec ''which snap'', Exec ''sudo snap list multipass-sshfs'',
                                Exec ''[ -e /snap ]''])))))))"
  by (simp add: has_sshfs_def exec_def log_def probe_exit_def Let_def split: option.splits)

lemma has_sshfs_exit_only:
  "(\<forall>cmd. probe_exit e session' cmd = probe_exit e session cmd) \<Longrightarrow>
   has_sshfs e name session' tr = has_sshfs e name session tr"
  by (simp add: has_sshfs_cases cong: option.case_cong if_cong)

lemma guest_which: "probe_exit e (guest a b c d) ''which snap'' = a"
  by (simp add: probe_exit_def guest_def ssh_process_def)

lemma guest_list: "probe_exit e (guest a b c d) ''sudo snap list multipass-sshfs'' = b"
  by (simp add: probe_exit_def guest_def ssh_process_def)

lemma guest_marker: "probe_exit e (guest a b c d) ''[ -e /snap ]'' = c"
  by (simp add: probe_exit_def guest_def ssh_process_def)

lemma guest_install:
  "ssh_exit_code (guest a b c d ''sudo snap install multipass-sshfs'') t = d"
  by (simp add: guest_def ssh_process_def)

lemma guest_output:
  "\<forall>cmd. probe_exit e (\<lambda>cmd. (guest a b c d cmd)\<lparr>std_output := out\<rparr>) cmd =
         probe_exit e (guest a b c d) cmd"
  by (simp add: probe_exit_def)

subsection \<open>The probes\<close>

text \<open>
  C2. \<^verbatim>\<open>has_sshfs\<close> runs its probes in a fixed order and stops at the first one that decides.
  When \<^verbatim>\<open>which snap\<close> exits with a code other than zero it throws the runtime error that asks
  for snap support, and no other command has run. Otherwise, when \<^verbatim>\<open>snap list\<close> exits with zero
  it returns true, and the third probe has not run. Otherwise, when the test for \<^verbatim>\<open>/snap\<close> exits
  with a code other than zero it throws the runtime error that asks for classic snap support;
  otherwise it returns false. Two sessions that give the same exit codes give the same result,
  whatever text their commands print.
\<close>

theorem has_sshfs_classification:
   "(probe_exit e session ''which snap'' = Some cw \<and> cw \<noteq> 0 \<longrightarrow>
       fst (has_sshfs e name session tr) = Inl (runtime_error (snap_missing_message name)) \<and>
       execs (snd (has_sshfs e name session tr)) = execs tr @ [''which snap'']) \<and>
    (probe_exit e session ''which snap'' = Some 0 \<and>
     probe_exit e session ''sudo snap list multipass-sshfs'' = Some 0 \<longrightarrow>
       fst (has_sshfs e name session tr) = Inr True \<and>
       execs (snd (has_sshfs e name session tr)) =
         execs tr @ [''which snap'', ''sudo snap list multipass-sshfs'']) \<and>
    (probe_exit e session ''which snap'' = Some 0 \<and>
     probe_exit e session ''sudo snap list multipass-sshfs'' = Some cl \<and> cl \<noteq> 0 \<and>
     probe_exit e session ''[ -e /snap ]'' = Some cm \<and> cm \<noteq> 0 \<longrightarrow>
       fst (has_sshfs e name session tr) = Inl (runtime_error (classic_missing_message name)) \<and>
       execs (snd (has_sshfs e name session tr)) =
         execs tr @ [''which snap'', ''sudo snap list multipass-sshfs'', ''[ -e /snap ]'']) \<and>
    (probe_exit e session ''which snap'' = Some 0 \<and>
     probe_exit e session ''sudo snap list multipass-sshfs'' = Some cl \<and> cl \<noteq> 0 \<and>
     probe_exit e session ''[ -e /snap ]'' = Some 0 \<longrightarrow>
       fst (has_sshfs e name session tr) = Inr False \<and>
       execs (snd (has_sshfs e name session tr)) =
         execs tr @ [''which snap'', ''sudo snap list multipass-sshfs'', ''[ -e /snap ]'']) \<and>
    ((\<forall>cmd. probe_exit e session' cmd = probe_exit e session cmd) \<longrightarrow>
       has_sshfs e name session' tr = has_sshfs e name session tr)"
  using has_sshfs_exit_only [of e session' session name tr]
  by (simp add: has_sshfs_cases execs_append execs_def)

theorem has_sshfs_classification_witness:
  "fst (has_sshfs (test_env (Inl []) [] None) ''primary'' (guest (Some 1) (Some 0) (Some 0) (Some 0)) []) =
     Inl (runtime_error (snap_missing_message ''primary'')) \<and>
   execs (snd (has_sshfs (test_env (Inl []) [] None) ''primary'' (guest (Some 1) (Some 0) (Some 0) (Some 0)) [])) =
     [''which snap''] \<and>
   fst (has_sshfs (test_env (Inl []) [] None) ''primary'' (guest (Some 0) (Some 0) (Some 1) (Some 0)) []) = Inr True \<and>
   execs (snd (has_sshfs (test_env (Inl []) [] None) ''primary'' (guest (Some 0) (Some 0) (Some 1) (Some 0)) [])) =
     [''which snap'', ''sudo snap list multipass-sshfs''] \<and>
   fst (has_sshfs (test_env (Inl []) [] None) ''primary'' (guest (Some 0) (Some 10) (Some 1) (Some 0)) []) =
     Inl (runtime_error (classic_missing_message ''primary'')) \<and>
   fst (has_sshfs (test_env (Inl []) [] None) ''primary'' (guest (Some 0) (Some 10) (Some 0) (Some 0)) []) = Inr False \<and>
   has_sshfs (test_env (Inl []) [] None) ''primary''
     (\<lambda>cmd. (guest (Some 0) (Some 10) (Some 0) (Some 0) cmd)\<lparr>std_output := ''multipass-sshfs''\<rparr>) [] =
     has_sshfs (test_env (Inl []) [] None) ''primary'' (guest (Some 0) (Some 10) (Some 0) (Some 0)) []"
proof -
  note no_snap = has_sshfs_classification [where e = "test_env (Inl []) [] None" and name = "''primary''" and tr = "[]"
      and cw = 1 and cl = 0 and cm = 0 and session = "guest (Some 1) (Some 0) (Some 0) (Some 0)"
      and session' = "guest (Some 1) (Some 0) (Some 0) (Some 0)"]
  note present = has_sshfs_classification [where e = "test_env (Inl []) [] None" and name = "''primary''" and tr = "[]"
      and cw = 0 and cl = 0 and cm = 1 and session = "guest (Some 0) (Some 0) (Some 1) (Some 0)"
      and session' = "guest (Some 0) (Some 0) (Some 1) (Some 0)"]
  note no_marker = has_sshfs_classification [where e = "test_env (Inl []) [] None" and name = "''primary''" and tr = "[]"
      and cw = 0 and cl = 10 and cm = 1 and session = "guest (Some 0) (Some 10) (Some 1) (Some 0)"
      and session' = "guest (Some 0) (Some 10) (Some 1) (Some 0)"]
  note installable = has_sshfs_classification [where e = "test_env (Inl []) [] None" and name = "''primary''" and tr = "[]"
      and cw = 0 and cl = 10 and cm = 0 and session = "guest (Some 0) (Some 10) (Some 0) (Some 0)"
      and session' = "\<lambda>cmd. (guest (Some 0) (Some 10) (Some 0) (Some 0) cmd)\<lparr>std_output := ''multipass-sshfs''\<rparr>"]
  show ?thesis
    using no_snap present no_marker installable
    by (simp only: guest_which guest_list guest_marker guest_output execs_Nil append_Nil) simp
qed

subsection \<open>The installer\<close>

text \<open>
  C3. \<^verbatim>\<open>install_sshfs_for\<close> throws \<^verbatim>\<open>SSHFSMissingError\<close> when the install command exits with a
  code other than zero within the timeout, and throws the same \<^verbatim>\<open>SSHFSMissingError\<close> when the
  bounded wait for the exit code ends with \<^verbatim>\<open>ExitlessSSHProcessException\<close>. When the command
  exits with zero it returns. In each case the install command has run once.
\<close>

theorem install_sshfs_for_outcome:
  "(ssh_exit_code (session ''sudo snap install multipass-sshfs'') timeout = Some c \<and> c \<noteq> 0 \<longrightarrow>
      fst (install_sshfs_for e name session timeout tr) = Inl SSHFSMissingError) \<and>
   (ssh_exit_code (session ''sudo snap install multipass-sshfs'') timeout = None \<longrightarrow>
      fst (install_sshfs_for e name session timeout tr) = Inl SSHFSMissingError) \<and>
   (ssh_exit_code (session ''sudo snap install multipass-sshfs'') timeout = Some 0 \<longrightarrow>
      fst (install_sshfs_for e name session timeout tr) = Inr ()) \<and>
   execs (snd (install_sshfs_for e name session timeout tr)) =
     execs tr @ [''sudo snap install multipass-sshfs'']"
  by (simp add: install_sshfs_for_def exec_def log_def Let_def execs_append execs_def
           split: option.splits)

theorem install_sshfs_for_outcome_witness:
  "fst (install_sshfs_for (test_env (Inl []) [] None) ''primary'' (guest (Some 0) (Some 1) (Some 0) (Some 1)) 300000 []) =
     Inl SSHFSMissingError \<and>
   fst (install_sshfs_for (test_env (Inl []) [] None) ''primary'' (guest (Some 0) (Some 1) (Some 0) None) 300000 []) =
     Inl SSHFSMissingError \<and>
   fst (install_sshfs_for (test_env (Inl []) [] None) ''primary'' (guest (Some 0) (Some 1) (Some 0) (Some 0)) 300000 []) =
     Inr ()"
  using install_sshfs_for_outcome [where e = "test_env (Inl []) [] None" and name = "''primary''" and tr = "[]"
          and timeout = 300000 and c = 1 and session = "guest (Some 0) (Some 1) (Some 0) (Some 1)"]
        install_sshfs_for_outcome [where e = "test_env (Inl []) [] None" and name = "''primary''" and tr = "[]"
          and timeout = 300000 and c = 1 and session = "guest (Some 0) (Some 1) (Some 0) None"]
        install_sshfs_for_outcome [where e = "test_env (Inl []) [] None" and name = "''primary''" and tr = "[]"
          and timeout = 300000 and c = 1 and session = "guest (Some 0) (Some 1) (Some 0) (Some 0)"]
  by (simp only: guest_install) simp


lemma stop_impl_cases:
  "process st = Some p \<Longrightarrow>
   stop_impl e st =
     (if wait_for_finished 5000 p then
        (Inr (),
         st\<lparr>trace := trace st @
               [Log info category
                  (''Stopping mount '' @ dquoted (target st) @ '' in instance '' @
                   quoted (vm_name (vm e))),
                Terminate, WaitForFinished 5000]\<rparr>)
      else
        (Inl (runtime_error (''Failed to terminate SSHFS mount process: '' @ stderr_buf p)),
         st\<lparr>trace := trace st @
               [Log info category
                  (''Stopping mount '' @ dquoted (target st) @ '' in instance '' @
                   quoted (vm_name (vm e))),
                Terminate, WaitForFinished 5000],
             process := Some (p\<lparr>stderr_buf := []\<rparr>)\<rparr>))"
  by (simp add: stop_impl_def log_def read_all_standard_error_def Let_def)

lemma mounted_process:
  "process (mounted (test_env s evs delay) err) =
     Some ((child evs delay (config (fresh (test_env s evs delay))))\<lparr>stderr_buf := err\<rparr>)"
  by (simp add: mounted_def test_env_def)

lemma child_finish_delay: "finish_delay ((child evs delay cfg)\<lparr>stderr_buf := err\<rparr>) = delay"
  by (simp add: child_def)

lemma child_stderr: "stderr_buf ((child evs delay cfg)\<lparr>stderr_buf := err\<rparr>) = err"
  by (simp add: child_def)

subsection \<open>Stopping\<close>

text \<open>
  C4. \<^verbatim>\<open>stop_impl\<close> asks the child to terminate once and waits for it with the deadline of
  5000 ms. When the child finishes within the deadline the call returns; when it needs longer,
  or never finishes, the call throws the runtime error whose text ends with everything that
  waited on the child's standard error.
\<close>

theorem stop_impl_deadline:
  "process st = Some p \<Longrightarrow>
   (finish_delay p = Some t \<and> t \<le> 5000 \<longrightarrow> fst (stop_impl e st) = Inr ()) \<and>
   (finish_delay p = Some t \<and> 5000 < t \<longrightarrow>
      fst (stop_impl e st) =
        Inl (runtime_error (''Failed to terminate SSHFS mount process: '' @ stderr_buf p))) \<and>
   (finish_delay p = None \<longrightarrow>
      fst (stop_impl e st) =
        Inl (runtime_error (''Failed to terminate SSHFS mount process: '' @ stderr_buf p))) \<and>
   terminations (trace (snd (stop_impl e st))) = Suc (terminations (trace st)) \<and>
   (\<exists>msg. trace (snd (stop_impl e st)) =
            trace st @ [Log info category msg, Terminate, WaitForFinished 5000])"
  by (simp add: stop_impl_cases wait_for_finished_def terminations_def)

theorem stop_impl_deadline_witness:
  "fst (stop_impl (test_env (Inl []) [] (Some 120)) (mounted (test_env (Inl []) [] (Some 120)) ''bye'')) =
     Inr () \<and>
   fst (stop_impl (test_env (Inl []) [] (Some 60000)) (mounted (test_env (Inl []) [] (Some 60000)) ''busy'')) =
     Inl (runtime_error (''Failed to terminate SSHFS mount process: '' @ ''busy'')) \<and>
   fst (stop_impl (test_env (Inl []) [] None) (mounted (test_env (Inl []) [] None) ''stuck'')) =
     Inl (runtime_error (''Failed to terminate SSHFS mount process: '' @ ''stuck''))"
  using stop_impl_deadline [OF mounted_process, where e = "test_env (Inl []) [] (Some 120)"
          and t = 120 and s1 = "Inl []" and evs1 = "[]" and delay1 = "Some 120" and err1 = "''bye''"]
        stop_impl_deadline [OF mounted_process, where e = "test_env (Inl []) [] (Some 60000)"
          and t = 60000 and s1 = "Inl []" and evs1 = "[]" and delay1 = "Some 60000" and err1 = "''busy''"]
        stop_impl_deadline [OF mounted_process, where e = "test_env (Inl []) [] None"
          and t = 0 and s1 = "Inl []" and evs1 = "[]" and delay1 = "None" and err1 = "''stuck''"]
  by (simp only: child_finish_delay child_stderr) simp


lemma stop_impl_phase: "phase (snd (stop_impl e st)) = phase st"
  by (simp add: stop_impl_def log_def read_all_standard_error_def Let_def split: option.splits)

text \<open>
  C9. After a \<^verbatim>\<open>stop\<close> that returned, a second \<^verbatim>\<open>stop\<close> returns too and leaves the handler and
  the world as they are: in particular no further termination request is sent.
\<close>

theorem stop_idempotent:
  "fst (stop e st) = Inr () \<Longrightarrow>
   stop e (snd (stop e st)) = (Inr (), snd (stop e st)) \<and>
   terminations (trace (snd (stop e (snd (stop e st))))) =
     terminations (trace (snd (stop e st)))"
  by (auto simp add: stop_def split: prod.splits sum.splits if_splits)

subsection \<open>Destruction\<close>

text \<open>
  C7. The destructor calls \<^verbatim>\<open>stop\<close> once. Whatever exception that call throws, the destructor
  returns normally; the state it leaves is the one \<^verbatim>\<open>stop\<close> left, with one warning record added
  to the log when \<^verbatim>\<open>stop\<close> threw and nothing added when it returned.
\<close>

theorem destructor_swallows:
  "fst (stop_fn st) \<noteq> Inl null_dereference \<Longrightarrow>
   fst (SSHFSMountHandler_destructor stop_fn e st) = Inr () \<and>
   (fst (stop_fn st) = Inr () \<longrightarrow>
      snd (SSHFSMountHandler_destructor stop_fn e st) = snd (stop_fn st)) \<and>
   (fst (stop_fn st) = Inl f \<longrightarrow>
      snd (SSHFSMountHandler_destructor stop_fn e st) =
        (snd (stop_fn st))\<lparr>trace := trace (snd (stop_fn st)) @
           [Log warning category
              (''Failed to gracefully stop mount '' @ dquoted (target (snd (stop_fn st))) @
               '' in instance '' @ quoted (vm_name (vm e)) @ '': '' @ what e f)]\<rparr>)"
  by (cases "stop_fn st"; cases "fst (stop_fn st)"; cases f)
     (auto simp add: SSHFSMountHandler_destructor_def log_def split: failure.splits)


lemma mounted_stop:
  "fst (stop (test_env s evs delay) (mounted (test_env s evs delay) err)) =
     (case delay of
        None \<Rightarrow> Inl (runtime_error (''Failed to terminate SSHFS mount process: '' @ err))
      | Some t \<Rightarrow>
          if t \<le> 5000 then Inr ()
          else Inl (runtime_error (''Failed to terminate SSHFS mount process: '' @ err)))"
  by (simp add: stop_def mounted_def stop_impl_def fresh_def SSHFSMountHandler_def test_env_def
        child_def wait_for_finished_def log_def read_all_standard_error_def Let_def
      split: option.splits)

lemma mounted_stop_terminations:
  "terminations (trace (snd (stop (test_env s evs delay) (mounted (test_env s evs delay) err)))) = 1"
  by (simp add: stop_def mounted_def stop_impl_def fresh_def SSHFSMountHandler_def test_env_def
        child_def wait_for_finished_def log_def read_all_standard_error_def Let_def
        terminations_def
      split: option.splits)

theorem stop_idempotent_witness:
  "fst (stop (test_env (Inl []) [] (Some 120)) (mounted (test_env (Inl []) [] (Some 120)) [])) =
     Inr () \<and>
   stop (test_env (Inl []) [] (Some 120))
     (snd (stop (test_env (Inl []) [] (Some 120)) (mounted (test_env (Inl []) [] (Some 120)) []))) =
     (Inr (), snd (stop (test_env (Inl []) [] (Some 120))
                     (mounted (test_env (Inl []) [] (Some 120)) []))) \<and>
   terminations (trace (snd (stop (test_env (Inl []) [] (Some 120))
     (snd (stop (test_env (Inl []) [] (Some 120))
            (mounted (test_env (Inl []) [] (Some 120)) [])))))) = 1"
proof -
  have first: "fst (stop (test_env (Inl []) [] (Some 120))
                      (mounted (test_env (Inl []) [] (Some 120)) [])) = Inr ()"
    by (simp add: mounted_stop)
  show ?thesis
    using first stop_idempotent [OF first]
      mounted_stop_terminations [of "Inl []" "[]" "Some 120" "[]"]
    by simp
qed

theorem destructor_swallows_witness:
  "fst (stop (test_env (Inl []) [] None) (mounted (test_env (Inl []) [] None) ''stuck'')) =
     Inl (runtime_error (''Failed to terminate SSHFS mount process: '' @ ''stuck'')) \<and>
   fst (SSHFSMountHandler_destructor (stop (test_env (Inl []) [] None))
          (test_env (Inl []) [] None) (mounted (test_env (Inl []) [] None) ''stuck'')) = Inr () \<and>
   terminations (trace (snd (SSHFSMountHandler_destructor (stop (test_env (Inl []) [] None))
          (test_env (Inl []) [] None) (mounted (test_env (Inl []) [] None) ''stuck'')))) = 1"
proof -
  have failed: "fst (stop (test_env (Inl []) [] None) (mounted (test_env (Inl []) [] None) ''stuck'')) =
      Inl (runtime_error (''Failed to terminate SSHFS mount process: '' @ ''stuck''))"
    by (simp add: mounted_stop)
  then have no_crash: "fst (stop (test_env (Inl []) [] None)
      (mounted (test_env (Inl []) [] None) ''stuck'')) \<noteq> Inl null_dereference"
    by simp
  show ?thesis
    using failed
      destructor_swallows [where stop_fn = "stop (test_env (Inl []) [] None)"
        and st = "mounted (test_env (Inl []) [] None) ''stuck''"
        and e = "test_env (Inl []) [] None"
        and f = "runtime_error (''Failed to terminate SSHFS mount process: '' @ ''stuck'')",
        OF no_crash]
      mounted_stop_terminations [of "Inl []" "[]" None "''stuck''"]
    by (simp add: terminations_def)
qed


subsection \<open>Waiting for the token\<close>

lemma contains_iff: "contains hay needle \<longleftrightarrow> (\<exists>u v. hay = u @ needle @ v)"
proof (induction hay)
  case Nil
  then show ?case by simp
next
  case (Cons c cs)
  show ?case
  proof
    assume "contains (c # cs) needle"
    then consider "prefix needle (c # cs)" | "contains cs needle" by auto
    then show "\<exists>u v. c # cs = u @ needle @ v"
    proof cases
      case 1
      then obtain v where "c # cs = needle @ v" by (auto simp add: prefix_def)
      then have "c # cs = [] @ needle @ v" by simp
      then show ?thesis by blast
    next
      case 2
      with Cons.IH obtain u v where "cs = u @ needle @ v" by blast
      then have "c # cs = (c # u) @ needle @ v" by simp
      then show ?thesis by blast
    qed
  next
    assume "\<exists>u v. c # cs = u @ needle @ v"
    then obtain u v where uv: "c # cs = u @ needle @ v" by blast
    show "contains (c # cs) needle"
    proof (cases u)
      case Nil
      with uv have "prefix needle (c # cs)" by (simp add: prefix_def)
      then show ?thesis by simp
    next
      case (Cons a u')
      with uv have "cs = u' @ needle @ v" by simp
      with Cons.IH have "contains cs needle" by blast
      then show ?thesis by simp
    qed
  qed
qed

lemma event_loop_exec_logs:
  "\<exists>recs. snd (snd (event_loop_exec es p tr)) = tr @ log_events recs"
proof (induction es p tr rule: event_loop_exec.induct)
  case (1 p tr)
  have "tr = tr @ log_events []" by (simp add: log_events_def)
  then show ?case by (metis event_loop_exec.simps(1) snd_conv)
next
  case (2 bs es p tr)
  show ?case
  proof (cases "contains (stdout_buf p @ bs) ''Connected''")
    case True
    have "tr = tr @ log_events []" by (simp add: log_events_def)
    with True show ?thesis
      by (simp add: read_all_standard_output_def) (metis list.simps(8) log_events_def)
  next
    case False
    with 2 show ?thesis by (simp add: read_all_standard_output_def)
  qed
next
  case (3 bs es p tr)
  then show ?case by simp
next
  case (4 exit_state es p tr)
  then show ?case by auto
next
  case (5 err error_string st es p tr)
  then obtain recs where
    "snd (snd (event_loop_exec es (p\<lparr>pending := es, pstate := st\<rparr>)
        (tr @ log_events (error_occurred_conn p err error_string)))) =
      (tr @ log_events (error_occurred_conn p err error_string)) @ log_events recs"
    by blast
  then have "snd (snd (event_loop_exec (ErrorOccurred err error_string st # es) p tr)) =
      tr @ log_events (error_occurred_conn p err error_string @ recs)"
    by (simp add: log_events_def)
  then show ?case by blast
qed

lemma event_loop_exec_first:
  "\<forall>x\<in>set pre. \<not> fires x \<Longrightarrow> fires ev \<Longrightarrow> stdout_buf p = [] \<Longrightarrow>
   fst (event_loop_exec (pre @ ev # post) p tr) \<and>
   pending (fst (snd (event_loop_exec (pre @ ev # post) p tr))) = post \<and>
   pstate (fst (snd (event_loop_exec (pre @ ev # post) p tr))) =
     (case ev of Finished exit_state \<Rightarrow> exit_state | _ \<Rightarrow> state_after pre (pstate p)) \<and>
   stderr_buf (fst (snd (event_loop_exec (pre @ ev # post) p tr))) =
     stderr_buf p @ stderr_of pre"
proof (induction pre arbitrary: p tr)
  case Nil
  then show ?case
    by (cases ev) (simp_all add: fires_def read_all_standard_output_def)
next
  case (Cons a pre)
  then show ?case
    by (cases a) (simp_all add: fires_def read_all_standard_output_def split: proc_event.splits)
qed

lemma event_loop_exec_quiet:
  "\<forall>x\<in>set es. \<not> fires x \<Longrightarrow> stdout_buf p = [] \<Longrightarrow> \<not> fst (event_loop_exec es p tr)"
proof (induction es arbitrary: p tr)
  case Nil
  then show ?case by simp
next
  case (Cons a es)
  then show ?case
    by (cases a) (simp_all add: fires_def read_all_standard_output_def)
qed

text \<open>
  C6, as the code has it. Each output notification reads what has arrived since the previous
  read and looks for \<^verbatim>\<open>Connected\<close> in those bytes alone; \<^verbatim>\<open>contains\<close> is the case-sensitive search
  for a contiguous run, anywhere in the bytes. On a process with nothing unread, the wait
  returns at the first notification that is either \<^verbatim>\<open>finished\<close> or an output notification whose
  own bytes hold the token. At the token the state of the process is untouched and the rest
  of its script is still to come; at \<^verbatim>\<open>finished\<close> the state is the exit state of the signal.
  When no notification of the script is of either kind, the wait does not return.
\<close>

theorem start_and_block_until_connected_returns:
  "stdout_buf p = [] \<Longrightarrow>
   (contains bs ''Connected'' \<longleftrightarrow> (\<exists>u v. bs = u @ ''Connected'' @ v)) \<and>
   (pending p = pre @ ev # post \<and> (\<forall>x\<in>set pre. \<not> fires x) \<and> fires ev \<longrightarrow>
      fst (start_and_block_until_connected p tr) \<and>
      pending (fst (snd (start_and_block_until_connected p tr))) = post \<and>
      pstate (fst (snd (start_and_block_until_connected p tr))) =
        (case ev of Finished exit_state \<Rightarrow> exit_state | _ \<Rightarrow> state_after pre (pstate p))) \<and>
   ((\<forall>x\<in>set (pending p). \<not> fires x) \<longrightarrow> \<not> fst (start_and_block_until_connected p tr))"
  using contains_iff [of bs "''Connected''"]
    event_loop_exec_first [of pre ev p post "tr @ [ProcessStart]"]
    event_loop_exec_quiet [of "pending p" p "tr @ [ProcessStart]"]
  by (simp add: start_and_block_until_connected_def)


lemma child_fields:
  "stdout_buf (child evs delay cfg) = []"
  "stderr_buf (child evs delay cfg) = []"
  "pending (child evs delay cfg) = evs"
  "pstate (child evs delay cfg) = running"
  by (simp_all add: child_def)

theorem start_and_block_until_connected_returns_witness:
  "fst (start_and_block_until_connected
          (child [ReadyReadStandardError ''warning'',
                  ReadyReadStandardOutput ''sshfs: Connected to host'',
                  Finished (exited 0)] None (config (fresh (test_env (Inl []) [] None)))) []) \<and>
   pending (fst (snd (start_and_block_until_connected
          (child [ReadyReadStandardError ''warning'',
                  ReadyReadStandardOutput ''sshfs: Connected to host'',
                  Finished (exited 0)] None (config (fresh (test_env (Inl []) [] None)))) []))) =
     [Finished (exited 0)] \<and>
   pstate (fst (snd (start_and_block_until_connected
          (child [ReadyReadStandardError ''warning'',
                  ReadyReadStandardOutput ''sshfs: Connected to host'',
                  Finished (exited 0)] None (config (fresh (test_env (Inl []) [] None)))) []))) =
     running \<and>
   fst (start_and_block_until_connected
          (child [ReadyReadStandardOutput ''Conn'', Finished (exited 9)] None
             (config (fresh (test_env (Inl []) [] None)))) []) \<and>
   pstate (fst (snd (start_and_block_until_connected
          (child [ReadyReadStandardOutput ''Conn'', Finished (exited 9)] None
             (config (fresh (test_env (Inl []) [] None)))) []))) = exited 9 \<and>
   \<not> fst (start_and_block_until_connected
          (child [ReadyReadStandardOutput ''connected''] None
             (config (fresh (test_env (Inl []) [] None)))) [])"
proof -
  have quiet:
    "\<not> fires (ReadyReadStandardError ''warning'')"
    "\<not> fires (ReadyReadStandardOutput ''Conn'')"
    "\<not> fires (ReadyReadStandardOutput ''connected'')"
    by (simp_all add: fires_def)
  have loud:
    "fires (ReadyReadStandardOutput ''sshfs: Connected to host'')"
    "fires (Finished (exited 9))"
    by (simp_all add: fires_def)
  note ready = start_and_block_until_connected_returns
    [where p = "child [ReadyReadStandardError ''warning'',
                  ReadyReadStandardOutput ''sshfs: Connected to host'',
                  Finished (exited 0)] None (config (fresh (test_env (Inl []) [] None)))"
      and bs = "''Connected''" and tr = "[]"
      and pre = "[ReadyReadStandardError ''warning'']"
      and ev = "ReadyReadStandardOutput ''sshfs: Connected to host''"
      and post = "[Finished (exited 0)]", OF child_fields(1)]
  note gone = start_and_block_until_connected_returns
    [where p = "child [ReadyReadStandardOutput ''Conn'', Finished (exited 9)] None
                  (config (fresh (test_env (Inl []) [] None)))"
      and bs = "''Connected''" and tr = "[]"
      and pre = "[ReadyReadStandardOutput ''Conn'']"
      and ev = "Finished (exited 9)"
      and post = "[]", OF child_fields(1)]
  note silent = start_and_block_until_connected_returns
    [where p = "child [ReadyReadStandardOutput ''connected''] None
                  (config (fresh (test_env (Inl []) [] None)))"
      and bs = "''Connected''" and tr = "[]"
      and pre = "[]"
      and ev = "ReadyReadStandardOutput ''connected''"
      and post = "[]", OF child_fields(1)]
  show ?thesis
    using ready gone silent quiet loud
    by (simp add: child_fields)
qed

text \<open>
  The token is not found when its bytes arrive in two notifications, although the output
  received so far holds it: the wait goes on, and ends only when the child exits.
\<close>

theorem split_token_counterexample:
  "contains (''Conn'' @ ''ected'') ''Connected'' \<and>
   \<not> fst (start_and_block_until_connected
          (child [ReadyReadStandardOutput ''Conn'', ReadyReadStandardOutput ''ected''] None
             (config (fresh (test_env (Inl []) [] None)))) []) \<and>
   pstate (fst (snd (start_and_block_until_connected
          (child [ReadyReadStandardOutput ''Conn'', ReadyReadStandardOutput ''ected'',
                  Finished (exited 1)] None
             (config (fresh (test_env (Inl []) [] None)))) []))) = exited 1"
  by (simp add: start_and_block_until_connected_def child_def read_all_standard_output_def)


subsection \<open>The parts of start\<close>

lemma has_sshfs_trace:
  "has_sshfs e name session tr =
     (fst (has_sshfs e name session []), tr @ snd (has_sshfs e name session []))"
  by (simp add: has_sshfs_cases split: option.splits)

lemma install_sshfs_for_trace:
  "install_sshfs_for e name session timeout tr =
     (fst (install_sshfs_for e name session timeout []),
      tr @ snd (install_sshfs_for e name session timeout []))"
  by (simp add: install_sshfs_for_def exec_def log_def Let_def split: option.splits)

lemma visitor_trace: "visitor srv tr = tr @ visitor srv []"
  by (simp add: visitor_def split: ServerVariant.splits)

lemma start_impl_prepare_unfold:
  "start_impl_prepare e srv timeout st =
     (case open_session e (ssh_hostname (vm e) (hostname_queries st)) (ssh_port (vm e))
             (ssh_username (vm e)) of
        Inl msg \<Rightarrow>
          (Inl (session_failure msg),
           st\<lparr>trace := trace st @ prepare_events e srv timeout st,
              hostname_queries := Suc (hostname_queries st)\<rparr>)
      | Inr session \<Rightarrow>
          (case fst (has_sshfs e (vm_name (vm e)) session []) of
             Inl f \<Rightarrow> Inl f
           | Inr found \<Rightarrow>
               (if found then Inr ()
                else fst (install_sshfs_for e (vm_name (vm e)) session timeout [])),
           st\<lparr>trace := trace st @ prepare_events e srv timeout st,
              hostname_queries := Suc (hostname_queries st)\<rparr>))"
proof (cases "open_session e (ssh_hostname (vm e) (hostname_queries st)) (ssh_port (vm e))
                (ssh_username (vm e))")
  case (Inl msg)
  then show ?thesis
    by (simp add: start_impl_prepare_def prepare_events_def call_ssh_hostname_def)
next
  case (Inr session)
  define tr2 where "tr2 = trace st @ [SshHostname,
      OpenSession (ssh_hostname (vm e) (hostname_queries st)) (ssh_port (vm e))
        (ssh_username (vm e))]"
  define r where "r = fst (has_sshfs e (vm_name (vm e)) session [])"
  define tr3 where "tr3 = tr2 @ snd (has_sshfs e (vm_name (vm e)) session [])"
  have probe: "has_sshfs e (vm_name (vm e)) session tr2 = (r, tr3)"
    unfolding r_def tr3_def by (rule has_sshfs_trace)
  define i where "i = fst (install_sshfs_for e (vm_name (vm e)) session timeout [])"
  define tr5 where "tr5 = tr3 @ visitor srv [] @
      snd (install_sshfs_for e (vm_name (vm e)) session timeout [])"
  have inst: "install_sshfs_for e (vm_name (vm e)) session timeout (visitor srv tr3) = (i, tr5)"
    unfolding i_def tr5_def
    using install_sshfs_for_trace [of e "vm_name (vm e)" session timeout "visitor srv tr3"]
      visitor_trace [of srv tr3]
    by simp
  have body: "start_impl_prepare e srv timeout st =
      (case r of
         Inl f \<Rightarrow> (Inl f, st\<lparr>trace := tr3, hostname_queries := Suc (hostname_queries st)\<rparr>)
       | Inr found \<Rightarrow>
           (if found then
              (Inr (), st\<lparr>trace := tr3, hostname_queries := Suc (hostname_queries st)\<rparr>)
            else (i, st\<lparr>trace := tr5, hostname_queries := Suc (hostname_queries st)\<rparr>)))"
    using Inr probe inst
    by (simp add: start_impl_prepare_def call_ssh_hostname_def tr2_def [symmetric]
          split: sum.splits bool.splits)
  have events: "trace st @ prepare_events e srv timeout st =
      (if r = Inr False then tr5 else tr3)"
    using Inr by (simp add: prepare_events_def tr5_def tr3_def tr2_def r_def)
  show ?thesis
    unfolding body events
    using Inr by (simp add: r_def [symmetric] i_def [symmetric] split: sum.splits)
qed

lemma start_impl_prepare_state:
  "snd (start_impl_prepare e srv timeout st) =
     st\<lparr>trace := trace st @ prepare_events e srv timeout st,
        hostname_queries := Suc (hostname_queries st)\<rparr>"
  by (simp add: start_impl_prepare_unfold split: sum.splits)

lemma start_impl_prepare_result:
  "fst (start_impl_prepare e srv timeout st) =
     (case open_session e (ssh_hostname (vm e) (hostname_queries st)) (ssh_port (vm e))
             (ssh_username (vm e)) of
        Inl msg \<Rightarrow> Inl (session_failure msg)
      | Inr session \<Rightarrow>
          (case fst (has_sshfs e (vm_name (vm e)) session []) of
             Inl f \<Rightarrow> Inl f
           | Inr found \<Rightarrow>
               (if found then Inr ()
                else fst (install_sshfs_for e (vm_name (vm e)) session timeout []))))"
  by (simp add: start_impl_prepare_unfold split: sum.splits)


lemma connect_observers_fields:
  "pending (connect_observers e st p) = pending p"
  "stdout_buf (connect_observers e st p) = stdout_buf p"
  "stderr_buf (connect_observers e st p) = stderr_buf p"
  "pstate (connect_observers e st p) = pstate p"
  "finish_delay (connect_observers e st p) = finish_delay p"
  "program (connect_observers e st p) = program p"
  "arguments (connect_observers e st p) = arguments p"
  by (simp_all add: connect_observers_def Let_def)

text \<open>The configuration, the observed process and the trace at the moment the wait begins.\<close>

lemma start_impl_launch_unfold:
  "start_impl_launch e st =
     (let cfg = (config st)\<lparr>host := ssh_hostname (vm e) (hostname_queries st)\<rparr>;
          st3 = st\<lparr>hostname_queries := Suc (hostname_queries st), config := cfg,
                   trace := trace st @ [SshHostname, MakeProcess cfg]\<rparr>;
          p2 = connect_observers e st3 (make_sshfs_server_process e cfg);
          w = event_loop_exec (pending p2) p2
                (trace st3 @
                 [Log info category (program_message p2),
                  Log info category (arguments_message p2), ProcessStart])
      in (fst w, st3\<lparr>process := Some (fst (snd w)), trace := snd (snd w)\<rparr>))"
  by (simp add: start_impl_launch_def call_ssh_hostname_def start_and_block_until_connected_def
        log_def Let_def case_prod_beta)


lemma start_impl_launch_trace:
  "\<exists>m1 m2 recs.
     trace (snd (start_impl_launch e st)) =
       trace st @
       [SshHostname,
        MakeProcess ((config st)\<lparr>host := ssh_hostname (vm e) (hostname_queries st)\<rparr>),
        Log info category m1, Log info category m2, ProcessStart] @ log_events recs"
proof -
  define cfg where "cfg = (config st)\<lparr>host := ssh_hostname (vm e) (hostname_queries st)\<rparr>"
  define st3 where "st3 = st\<lparr>hostname_queries := Suc (hostname_queries st), config := cfg,
                   trace := trace st @ [SshHostname, MakeProcess cfg]\<rparr>"
  define p2 where "p2 = connect_observers e st3 (make_sshfs_server_process e cfg)"
  obtain recs where
    "snd (snd (event_loop_exec (pending p2) p2
        (trace st3 @ [Log info category (program_message p2),
                      Log info category (arguments_message p2), ProcessStart]))) =
     (trace st3 @ [Log info category (program_message p2),
                   Log info category (arguments_message p2), ProcessStart]) @ log_events recs"
    using event_loop_exec_logs by blast
  then have "trace (snd (start_impl_launch e st)) =
      trace st @ [SshHostname, MakeProcess cfg, Log info category (program_message p2),
        Log info category (arguments_message p2), ProcessStart] @ log_events recs"
    by (simp add: start_impl_launch_unfold Let_def cfg_def [symmetric] st3_def [symmetric]
          p2_def [symmetric])
       (simp add: st3_def)
  then show ?thesis
    unfolding cfg_def by blast
qed

lemma start_impl_launch_fields:
  "config (snd (start_impl_launch e st)) =
     (config st)\<lparr>host := ssh_hostname (vm e) (hostname_queries st)\<rparr>"
  "hostname_queries (snd (start_impl_launch e st)) = Suc (hostname_queries st)"
  "process (snd (start_impl_launch e st)) \<noteq> None"
  by (simp_all add: start_impl_launch_unfold Let_def)

lemma start_impl_check_trace: "trace (snd (start_impl_check st)) = trace st"
  by (simp add: start_impl_check_def read_all_standard_error_def Let_def split: option.splits)

lemma start_impl_check_fields:
  "config (snd (start_impl_check st)) = config st"
  "hostname_queries (snd (start_impl_check st)) = hostname_queries st"
  "process st = None \<Longrightarrow> process (snd (start_impl_check st)) = None"
  by (simp_all add: start_impl_check_def read_all_standard_error_def Let_def
        split: option.splits)

lemma start_impl_failed:
  "fst (start_impl_prepare e srv timeout st) = Inl f \<Longrightarrow>
   start_impl e srv timeout st = (Some (Inl f), snd (start_impl_prepare e srv timeout st))"
  by (cases "start_impl_prepare e srv timeout st") (simp add: start_impl_def)

lemma start_impl_launched:
  "fst (start_impl_prepare e srv timeout st) = Inr () \<Longrightarrow>
   start_impl e srv timeout st =
     (if fst (start_impl_launch e (snd (start_impl_prepare e srv timeout st))) then
        (Some (fst (start_impl_check
                 (snd (start_impl_launch e (snd (start_impl_prepare e srv timeout st)))))),
         snd (start_impl_check
                 (snd (start_impl_launch e (snd (start_impl_prepare e srv timeout st))))))
      else (None, snd (start_impl_launch e (snd (start_impl_prepare e srv timeout st)))))"
  by (cases "start_impl_prepare e srv timeout st")
     (simp add: start_impl_def split: prod.splits bool.splits)


lemma start_impl_trace:
  "\<exists>m1 m2 recs.
     trace (snd (start_impl e srv timeout st)) =
       trace st @ prepare_events e srv timeout st @
       (if fst (start_impl_prepare e srv timeout st) = Inr () then
          [SshHostname,
           MakeProcess ((config st)\<lparr>host := ssh_hostname (vm e) (Suc (hostname_queries st))\<rparr>),
           Log info category m1, Log info category m2, ProcessStart] @ log_events recs
        else [])"
proof (cases "fst (start_impl_prepare e srv timeout st)")
  case (Inl f)
  then show ?thesis
    by (simp add: start_impl_failed start_impl_prepare_state)
next
  case (Inr u)
  then have ok: "fst (start_impl_prepare e srv timeout st) = Inr ()" by simp
  obtain m1 m2 recs where
    "trace (snd (start_impl_launch e (snd (start_impl_prepare e srv timeout st)))) =
       trace (snd (start_impl_prepare e srv timeout st)) @
       [SshHostname,
        MakeProcess ((config (snd (start_impl_prepare e srv timeout st)))
          \<lparr>host := ssh_hostname (vm e)
                     (hostname_queries (snd (start_impl_prepare e srv timeout st)))\<rparr>),
        Log info category m1, Log info category m2, ProcessStart] @ log_events recs"
    using start_impl_launch_trace by blast
  then have "trace (snd (start_impl e srv timeout st)) =
       trace st @ prepare_events e srv timeout st @
          [SshHostname,
           MakeProcess ((config st)\<lparr>host := ssh_hostname (vm e) (Suc (hostname_queries st))\<rparr>),
           Log info category m1, Log info category m2, ProcessStart] @ log_events recs"
    by (simp add: start_impl_launched [OF ok] start_impl_check_trace start_impl_prepare_state)
  with ok show ?thesis by auto
qed

lemma readers_append:
  "progress_and_install (xs @ ys) = progress_and_install xs @ progress_and_install ys"
  "host_queries (xs @ ys) = host_queries xs + host_queries ys"
  "launches (xs @ ys) = launches xs @ launches ys"
  "made (xs @ ys) = made xs @ made ys"
  "sessions (xs @ ys) = sessions xs @ sessions ys"
  by (simp_all add: progress_and_install_def host_queries_def launches_def made_def sessions_def)

lemma probe_readers:
  "progress_and_install (snd (has_sshfs e name session [])) = []"
  "host_queries (snd (has_sshfs e name session [])) = 0"
  "launches (snd (has_sshfs e name session [])) = []"
  "made (snd (has_sshfs e name session [])) = []"
  "sessions (snd (has_sshfs e name session [])) = []"
  by (simp_all add: has_sshfs_cases progress_and_install_def host_queries_def launches_def
        made_def sessions_def split: option.splits)

lemma install_readers:
  "progress_and_install (snd (install_sshfs_for e name session timeout [])) =
     [Exec ''sudo snap install multipass-sshfs'']"
  "host_queries (snd (install_sshfs_for e name session timeout [])) = 0"
  "launches (snd (install_sshfs_for e name session timeout [])) = []"
  "made (snd (install_sshfs_for e name session timeout [])) = []"
  "sessions (snd (install_sshfs_for e name session timeout [])) = []"
  by (simp_all add: install_sshfs_for_def exec_def log_def Let_def progress_and_install_def
        host_queries_def launches_def made_def sessions_def split: option.splits)

lemma visitor_readers:
  "progress_and_install (visitor srv []) =
     (case srv of null_server \<Rightarrow> [] | server \<Rightarrow> [Write ''Enabling support for mounting''])"
  "host_queries (visitor srv []) = 0"
  "launches (visitor srv []) = []"
  "made (visitor srv []) = []"
  "sessions (visitor srv []) = []"
  by (simp_all add: visitor_def progress_and_install_def host_queries_def launches_def
        made_def sessions_def split: ServerVariant.splits)

lemma readers_Nil:
  "progress_and_install [] = []"
  "host_queries [] = 0"
  "launches [] = []"
  "made [] = []"
  "sessions [] = []"
  by (simp_all add: progress_and_install_def host_queries_def launches_def made_def sessions_def)

lemma readers_Cons:
  "progress_and_install (ev # xs) =
     (case ev of
        Write msg \<Rightarrow> [ev]
      | Exec cmd \<Rightarrow> if cmd = ''sudo snap install multipass-sshfs'' then [ev] else []
      | _ \<Rightarrow> []) @ progress_and_install xs"
  "host_queries (ev # xs) = (if ev = SshHostname then 1 else 0) + host_queries xs"
  "launches (ev # xs) =
     (case ev of MakeProcess cfg \<Rightarrow> [ev] | ProcessStart \<Rightarrow> [ev] | _ \<Rightarrow> []) @ launches xs"
  "made (ev # xs) = (case ev of MakeProcess cfg \<Rightarrow> [cfg] | _ \<Rightarrow> []) @ made xs"
  "sessions (ev # xs) = (case ev of OpenSession h p u \<Rightarrow> [h] | _ \<Rightarrow> []) @ sessions xs"
  by (simp_all add: progress_and_install_def host_queries_def launches_def made_def sessions_def
        split: event.splits)

lemma log_events_Nil: "log_events [] = []"
  by (simp add: log_events_def)

lemma log_events_Cons: "log_events ((lvl, cat, msg) # recs) = Log lvl cat msg # log_events recs"
  by (simp add: log_events_def)

lemma log_events_readers:
  "progress_and_install (log_events recs) = []"
  "host_queries (log_events recs) = 0"
  "launches (log_events recs) = []"
  "made (log_events recs) = []"
  "sessions (log_events recs) = []"
proof (induction recs)
  case Nil
  {
    case 1 show ?case by (simp add: log_events_Nil readers_Nil)
  next
    case 2 show ?case by (simp add: log_events_Nil readers_Nil)
  next
    case 3 show ?case by (simp add: log_events_Nil readers_Nil)
  next
    case 4 show ?case by (simp add: log_events_Nil readers_Nil)
  next
    case 5 show ?case by (simp add: log_events_Nil readers_Nil)
  }
next
  case (Cons r recs)
  obtain lvl cat msg where r: "r = (lvl, cat, msg)" by (cases r)
  {
    case 1 show ?case by (simp add: r log_events_Cons readers_Cons Cons.IH)
  next
    case 2 show ?case by (simp add: r log_events_Cons readers_Cons Cons.IH)
  next
    case 3 show ?case by (simp add: r log_events_Cons readers_Cons Cons.IH)
  next
    case 4 show ?case by (simp add: r log_events_Cons readers_Cons Cons.IH)
  next
    case 5 show ?case by (simp add: r log_events_Cons readers_Cons Cons.IH)
  }
qed

lemma prepare_readers:
  "host_queries (prepare_events e srv timeout st) = 1"
  "launches (prepare_events e srv timeout st) = []"
  "made (prepare_events e srv timeout st) = []"
  "sessions (prepare_events e srv timeout st) = [ssh_hostname (vm e) (hostname_queries st)]"
  by (simp_all add: prepare_events_def readers_Nil readers_Cons readers_append probe_readers
        install_readers visitor_readers split: sum.splits)

lemma prepare_progress_and_install:
  "progress_and_install (prepare_events e srv timeout st) =
     (case open_session e (ssh_hostname (vm e) (hostname_queries st)) (ssh_port (vm e))
             (ssh_username (vm e)) of
        Inl msg \<Rightarrow> []
      | Inr session \<Rightarrow>
          (if fst (has_sshfs e (vm_name (vm e)) session []) = Inr False then
             (case srv of null_server \<Rightarrow> [] | server \<Rightarrow> [Write ''Enabling support for mounting'']) @
             [Exec ''sudo snap install multipass-sshfs'']
           else []))"
  by (simp add: prepare_events_def readers_Nil readers_Cons readers_append probe_readers
        install_readers visitor_readers split: sum.splits)


lemma start_impl_config:
  "config (snd (start_impl e srv timeout st)) =
     (if fst (start_impl_prepare e srv timeout st) = Inr () then
        (config st)\<lparr>host := ssh_hostname (vm e) (Suc (hostname_queries st))\<rparr>
      else config st)"
proof (cases "fst (start_impl_prepare e srv timeout st)")
  case (Inl f)
  then show ?thesis
    by (simp add: start_impl_failed start_impl_prepare_state)
next
  case (Inr u)
  then have ok: "fst (start_impl_prepare e srv timeout st) = Inr ()" by simp
  then show ?thesis
    by (simp add: start_impl_launched [OF ok] start_impl_check_fields start_impl_launch_fields
          start_impl_prepare_state)
qed

lemma start_impl_launch_wait:
  assumes "stdout_buf (make_sshfs_server_process e
             ((config st)\<lparr>host := ssh_hostname (vm e) (hostname_queries st)\<rparr>)) = []"
    and "pending (make_sshfs_server_process e
             ((config st)\<lparr>host := ssh_hostname (vm e) (hostname_queries st)\<rparr>)) =
           pre @ ev # post"
    and "\<forall>x\<in>set pre. \<not> fires x" and "fires ev"
  shows "fst (start_impl_launch e st) \<and>
    (\<exists>p. process (snd (start_impl_launch e st)) = Some p \<and>
       pstate p =
         (case ev of
            Finished exit_state \<Rightarrow> exit_state
          | _ \<Rightarrow> state_after pre (pstate (make_sshfs_server_process e
                   ((config st)\<lparr>host := ssh_hostname (vm e) (hostname_queries st)\<rparr>)))) \<and>
       stderr_buf p =
         stderr_buf (make_sshfs_server_process e
           ((config st)\<lparr>host := ssh_hostname (vm e) (hostname_queries st)\<rparr>)) @
         stderr_of pre)"
proof -
  define cfg where "cfg = (config st)\<lparr>host := ssh_hostname (vm e) (hostname_queries st)\<rparr>"
  define st3 where "st3 = st\<lparr>hostname_queries := Suc (hostname_queries st), config := cfg,
                   trace := trace st @ [SshHostname, MakeProcess cfg]\<rparr>"
  define p0 where "p0 = make_sshfs_server_process e cfg"
  define p2 where "p2 = connect_observers e st3 p0"
  have "stdout_buf p2 = []" and "pending p2 = pre @ ev # post"
    and same: "pstate p2 = pstate p0" "stderr_buf p2 = stderr_buf p0"
    using assms(1,2) by (simp_all add: p2_def p0_def cfg_def connect_observers_fields)
  then have "fst (event_loop_exec (pending p2) p2 tr) \<and>
      pstate (fst (snd (event_loop_exec (pending p2) p2 tr))) =
        (case ev of Finished exit_state \<Rightarrow> exit_state | _ \<Rightarrow> state_after pre (pstate p0)) \<and>
      stderr_buf (fst (snd (event_loop_exec (pending p2) p2 tr))) =
        stderr_buf p0 @ stderr_of pre" for tr
    using event_loop_exec_first [OF assms(3,4), of p2 post tr]
    by (simp cong: proc_event.case_cong)
  then have "fst (start_impl_launch e st) \<and>
    (\<exists>p. process (snd (start_impl_launch e st)) = Some p \<and>
       pstate p =
         (case ev of Finished exit_state \<Rightarrow> exit_state | _ \<Rightarrow> state_after pre (pstate p0)) \<and>
       stderr_buf p = stderr_buf p0 @ stderr_of pre)"
    by (simp add: start_impl_launch_unfold Let_def cfg_def [symmetric] p0_def [symmetric]
          st3_def [symmetric] p2_def [symmetric])
  then show ?thesis
    unfolding p0_def cfg_def .
qed

lemma test_env_fields:
  "vm (test_env s evs delay) = test_vm"
  "open_session (test_env s evs delay) h p u = s"
  "make_sshfs_server_process (test_env s evs delay) = child evs delay"
  by (simp_all add: test_env_def)

lemma test_vm_fields:
  "vm_name test_vm = ''primary''"
  "ssh_hostname test_vm 0 = ''10.0.0.1''"
  "ssh_hostname test_vm (Suc n) = ''10.0.0.2''"
  by (simp_all add: test_vm_def)

lemma fresh_fields:
  "process (fresh e) = None"
  "hostname_queries (fresh e) = 0"
  "progress_and_install (trace (fresh e)) = []"
  "host_queries (trace (fresh e)) = 0"
  "launches (trace (fresh e)) = []"
  "made (trace (fresh e)) = []"
  "sessions (trace (fresh e)) = []"
  by (simp_all add: fresh_def SSHFSMountHandler_def log_def readers_Nil readers_Cons)

lemma guest_no_snap:
  "a \<noteq> 0 \<Longrightarrow>
   fst (has_sshfs e name (guest (Some a) b c d) []) =
     Inl (runtime_error (snap_missing_message name))"
  by (simp add: has_sshfs_cases guest_which)

lemma guest_ready: "fst (has_sshfs e name (guest (Some 0) (Some 0) c d) []) = Inr True"
  by (simp add: has_sshfs_cases guest_which guest_list)

lemma guest_installable:
  "b \<noteq> 0 \<Longrightarrow> fst (has_sshfs e name (guest (Some 0) (Some b) (Some 0) d) []) = Inr False"
  by (simp add: has_sshfs_cases guest_which guest_list guest_marker)

lemma guest_install_result:
  "fst (install_sshfs_for e name (guest a b c d) timeout []) =
     (if d = Some 0 then Inr () else Inl SSHFSMissingError)"
  by (simp add: install_sshfs_for_def exec_def log_def Let_def guest_install
        split: option.splits)

lemma prepare_ready:
  "fst (start_impl_prepare (test_env (Inr (guest (Some 0) (Some 0) c d)) evs delay) srv timeout
          (fresh (test_env (Inr (guest (Some 0) (Some 0) c d)) evs delay))) = Inr ()"
  by (simp add: start_impl_prepare_result test_env_fields guest_ready)

lemma child_launch:
  assumes "evs = pre @ ev # post" and "\<forall>x\<in>set pre. \<not> fires x" and "fires ev"
    and "fst (start_impl_prepare (test_env s evs delay) srv timeout (fresh (test_env s evs delay))) =
           Inr ()"
  shows "fst (start_impl_launch (test_env s evs delay)
           (snd (start_impl_prepare (test_env s evs delay) srv timeout
                  (fresh (test_env s evs delay))))) \<and>
    (\<exists>p. process (snd (start_impl_launch (test_env s evs delay)
           (snd (start_impl_prepare (test_env s evs delay) srv timeout
                  (fresh (test_env s evs delay)))))) = Some p \<and>
       pstate p = (case ev of Finished exit_state \<Rightarrow> exit_state | _ \<Rightarrow> state_after pre running) \<and>
       stderr_buf p = stderr_of pre)"
  using start_impl_launch_wait [where e = "test_env s evs delay"
      and st = "snd (start_impl_prepare (test_env s evs delay) srv timeout
                  (fresh (test_env s evs delay)))"
      and pre = pre and ev = ev and post = post] assms
  by (simp add: test_env_fields child_fields cong: proc_event.case_cong)

lemma start_impl_readers:
  "host_queries (trace (snd (start_impl e srv timeout st))) =
     host_queries (trace st) + (if fst (start_impl_prepare e srv timeout st) = Inr () then 2 else 1)"
  "made (trace (snd (start_impl e srv timeout st))) =
     made (trace st) @
     (if fst (start_impl_prepare e srv timeout st) = Inr () then
        [(config st)\<lparr>host := ssh_hostname (vm e) (Suc (hostname_queries st))\<rparr>]
      else [])"
  "sessions (trace (snd (start_impl e srv timeout st))) =
     sessions (trace st) @ [ssh_hostname (vm e) (hostname_queries st)]"
proof -
  obtain m1 m2 recs where
    "trace (snd (start_impl e srv timeout st)) =
       trace st @ prepare_events e srv timeout st @
       (if fst (start_impl_prepare e srv timeout st) = Inr () then
          [SshHostname,
           MakeProcess ((config st)\<lparr>host := ssh_hostname (vm e) (Suc (hostname_queries st))\<rparr>),
           Log info category m1, Log info category m2, ProcessStart] @ log_events recs
        else [])"
    using start_impl_trace by blast
  then show
    "host_queries (trace (snd (start_impl e srv timeout st))) =
       host_queries (trace st) +
       (if fst (start_impl_prepare e srv timeout st) = Inr () then 2 else 1)"
    "made (trace (snd (start_impl e srv timeout st))) =
       made (trace st) @
       (if fst (start_impl_prepare e srv timeout st) = Inr () then
          [(config st)\<lparr>host := ssh_hostname (vm e) (Suc (hostname_queries st))\<rparr>]
        else [])"
    "sessions (trace (snd (start_impl e srv timeout st))) =
       sessions (trace st) @ [ssh_hostname (vm e) (hostname_queries st)]"
    by (simp_all add: readers_append readers_Cons readers_Nil log_events_readers prepare_readers)
qed

lemma start_impl_check_running:
  "process st = Some p \<Longrightarrow> exit_code (pstate p) = None \<Longrightarrow> \<not> error (pstate p) \<Longrightarrow>
   fst (start_impl_check st) = Inr ()"
  by (simp add: start_impl_check_def)

lemma running_fields: "exit_code running = None" "\<not> error running"
  by (simp_all add: running_def)

lemma exited_fields:
  "exit_code (exited c) = Some c" "\<not> error (exited c)" "failure_message (exited c) = ''exit code''"
  by (simp_all add: exited_def)

lemma crashed_fields:
  "exit_code crashed = None" "error crashed" "failure_message crashed = ''Process crashed''"
  by (simp_all add: crashed_def)

subsection \<open>Start\<close>

text \<open>
  C5. In every run of \<^verbatim>\<open>start_impl\<close> the install command runs exactly when the session opened
  and the probes returned false. When the session cannot be opened, when a probe throws, and
  when the probes return true, the whole start writes no progress reply and never runs the
  install command. When the probes return false, the start writes one progress reply to a
  server that is there, and none to a null server, and then runs the install command once;
  nothing else of either kind happens during the start.
\<close>

theorem start_impl_installs_iff_not_ready:
  "progress_and_install (trace (snd (start_impl e srv timeout st))) =
     progress_and_install (trace st) @
     (case open_session e (ssh_hostname (vm e) (hostname_queries st)) (ssh_port (vm e))
             (ssh_username (vm e)) of
        Inl msg \<Rightarrow> []
      | Inr session \<Rightarrow>
          (if fst (has_sshfs e (vm_name (vm e)) session []) = Inr False then
             (case srv of null_server \<Rightarrow> [] | server \<Rightarrow> [Write ''Enabling support for mounting'']) @
             [Exec ''sudo snap install multipass-sshfs'']
           else []))"
proof -
  obtain m1 m2 recs where
    "trace (snd (start_impl e srv timeout st)) =
       trace st @ prepare_events e srv timeout st @
       (if fst (start_impl_prepare e srv timeout st) = Inr () then
          [SshHostname,
           MakeProcess ((config st)\<lparr>host := ssh_hostname (vm e) (Suc (hostname_queries st))\<rparr>),
           Log info category m1, Log info category m2, ProcessStart] @ log_events recs
        else [])"
    using start_impl_trace by blast
  then show ?thesis
    by (simp add: readers_append readers_Cons readers_Nil log_events_readers
          prepare_progress_and_install)
qed

text \<open>
  C8, as the code has it. The constructor leaves the host of the configuration empty. Every
  start asks the machine for its host once to open the session. A start whose session, probes
  and installation succeed asks a second time, just before the process is made: it asks twice
  in all, and the answer to the second question is the host of the configuration handed to
  \<^verbatim>\<open>make_sshfs_server_process\<close> and kept in the handler. A start that fails earlier asks once,
  makes no process and leaves the configuration as it was.
\<close>

theorem host_resolved_before_launch:
  "host (config (SSHFSMountHandler e tgt mnt tr n)) = [] \<and>
   sessions (trace (snd (start_impl e srv timeout st))) =
     sessions (trace st) @ [ssh_hostname (vm e) (hostname_queries st)] \<and>
   (fst (start_impl_prepare e srv timeout st) = Inr () \<longrightarrow>
      host_queries (trace (snd (start_impl e srv timeout st))) = host_queries (trace st) + 2 \<and>
      made (trace (snd (start_impl e srv timeout st))) =
        made (trace st) @
        [(config st)\<lparr>host := ssh_hostname (vm e) (Suc (hostname_queries st))\<rparr>] \<and>
      config (snd (start_impl e srv timeout st)) =
        (config st)\<lparr>host := ssh_hostname (vm e) (Suc (hostname_queries st))\<rparr>) \<and>
   (fst (start_impl_prepare e srv timeout st) = Inl f \<longrightarrow>
      host_queries (trace (snd (start_impl e srv timeout st))) = host_queries (trace st) + 1 \<and>
      made (trace (snd (start_impl e srv timeout st))) = made (trace st) \<and>
      config (snd (start_impl e srv timeout st)) = config st)"
  by (simp add: start_impl_readers start_impl_config SSHFSMountHandler_def)

lemma start_impl_prepare_process:
  "process (snd (start_impl_prepare e srv timeout st)) = process st"
  by (simp add: start_impl_prepare_state)

text \<open>
  C10. The constructor leaves the process pointer null. On a handler whose pointer is null,
  when the session cannot be opened, when a probe throws, or when the installer throws,
  \<^verbatim>\<open>start_impl\<close> throws that same exception, the pointer is still null, and no process has been
  made or started.
\<close>

theorem start_impl_fails_before_launch:
  "process (SSHFSMountHandler e tgt mnt tr n) = None \<and>
   (process st = None \<longrightarrow>
      (open_session e (ssh_hostname (vm e) (hostname_queries st)) (ssh_port (vm e))
         (ssh_username (vm e)) = Inl msg \<longrightarrow>
         fst (start_impl e srv timeout st) = Some (Inl (session_failure msg)) \<and>
         process (snd (start_impl e srv timeout st)) = None \<and>
         launches (trace (snd (start_impl e srv timeout st))) = launches (trace st)) \<and>
      (open_session e (ssh_hostname (vm e) (hostname_queries st)) (ssh_port (vm e))
         (ssh_username (vm e)) = Inr session \<and>
       fst (has_sshfs e (vm_name (vm e)) session []) = Inl f \<longrightarrow>
         fst (start_impl e srv timeout st) = Some (Inl f) \<and>
         process (snd (start_impl e srv timeout st)) = None \<and>
         launches (trace (snd (start_impl e srv timeout st))) = launches (trace st)) \<and>
      (open_session e (ssh_hostname (vm e) (hostname_queries st)) (ssh_port (vm e))
         (ssh_username (vm e)) = Inr session \<and>
       fst (has_sshfs e (vm_name (vm e)) session []) = Inr False \<and>
       fst (install_sshfs_for e (vm_name (vm e)) session timeout []) = Inl f \<longrightarrow>
         fst (start_impl e srv timeout st) = Some (Inl f) \<and>
         process (snd (start_impl e srv timeout st)) = None \<and>
         launches (trace (snd (start_impl e srv timeout st))) = launches (trace st)))"
proof -
  have failing: "fst (start_impl e srv timeout st) = Some (Inl g) \<and>
      process (snd (start_impl e srv timeout st)) = None \<and>
      launches (trace (snd (start_impl e srv timeout st))) = launches (trace st)"
    if "fst (start_impl_prepare e srv timeout st) = Inl g" and "process st = None" for g
    using that
    by (simp add: start_impl_failed start_impl_prepare_state readers_append prepare_readers)
  show ?thesis
    by (auto simp add: SSHFSMountHandler_def start_impl_prepare_result intro!: failing)
qed

text \<open>
  C1. When the session, the probes and the installation have succeeded and the wait has
  returned, \<^verbatim>\<open>start_impl\<close> decides by the state of the process alone. Exit code 9 throws
  \<^verbatim>\<open>SSHFSMissingError\<close>. Any other exit code that is not zero, and an error flag without exit
  code 9, throw a runtime error whose text is the failure message, a colon and a space, and
  then everything that waited on the child's standard error.
\<close>

theorem start_impl_exit_state:
  "fst (start_impl_prepare e srv timeout st) = Inr () \<Longrightarrow>
   fst (start_impl_launch e (snd (start_impl_prepare e srv timeout st))) \<Longrightarrow>
   process (snd (start_impl_launch e (snd (start_impl_prepare e srv timeout st)))) = Some p \<Longrightarrow>
   (exit_code (pstate p) = Some 9 \<longrightarrow>
      fst (start_impl e srv timeout st) = Some (Inl SSHFSMissingError)) \<and>
   (exit_code (pstate p) = Some c \<and> c \<noteq> 0 \<and> c \<noteq> 9 \<longrightarrow>
      fst (start_impl e srv timeout st) =
        Some (Inl (runtime_error (failure_message (pstate p) @ '': '' @ stderr_buf p)))) \<and>
   (error (pstate p) \<and> exit_code (pstate p) \<noteq> Some 9 \<longrightarrow>
      fst (start_impl e srv timeout st) =
        Some (Inl (runtime_error (failure_message (pstate p) @ '': '' @ stderr_buf p))))"
  by (simp add: start_impl_launched start_impl_check_def read_all_standard_error_def Let_def)


theorem start_impl_exit_state_witness:
  "fst (start_impl (test_env (Inr (guest (Some 0) (Some 0) (Some 0) (Some 0))) [ReadyReadStandardError ''noise'', Finished (exited 9)] None) server 300000 (fresh (test_env (Inr (guest (Some 0) (Some 0) (Some 0) (Some 0))) [ReadyReadStandardError ''noise'', Finished (exited 9)] None))) =
     Some (Inl SSHFSMissingError) \<and>
   fst (start_impl (test_env (Inr (guest (Some 0) (Some 0) (Some 0) (Some 0))) [ReadyReadStandardError ''boom'', Finished (exited 1)] None) server 300000 (fresh (test_env (Inr (guest (Some 0) (Some 0) (Some 0) (Some 0))) [ReadyReadStandardError ''boom'', Finished (exited 1)] None))) =
     Some (Inl (runtime_error (''exit code'' @ '': '' @ ''boom''))) \<and>
   fst (start_impl (test_env (Inr (guest (Some 0) (Some 0) (Some 0) (Some 0))) [Finished crashed] None) server 300000 (fresh (test_env (Inr (guest (Some 0) (Some 0) (Some 0) (Some 0))) [Finished crashed] None))) =
     Some (Inl (runtime_error (''Process crashed'' @ '': '' @ [])))"
proof -
  have quiet: "\<forall>x\<in>set [ReadyReadStandardError err]. \<not> fires x" for err
    by (simp add: fires_def)
  have loud: "fires (Finished exit_state)" for exit_state
    by (simp add: fires_def)
  have nine: "fst (start_impl (test_env (Inr (guest (Some 0) (Some 0) (Some 0) (Some 0))) [ReadyReadStandardError ''noise'', Finished (exited 9)] None) server 300000 (fresh (test_env (Inr (guest (Some 0) (Some 0) (Some 0) (Some 0))) [ReadyReadStandardError ''noise'', Finished (exited 9)] None))) =
     Some (Inl SSHFSMissingError)"
  proof -
    note prep = prepare_ready [where c = "Some 0" and d = "Some 0"
        and evs = "[ReadyReadStandardError ''noise'', Finished (exited 9)]" and delay = None
        and srv = server and timeout = 300000]
    from child_launch [where pre = "[ReadyReadStandardError ''noise'']"
        and ev = "Finished (exited 9)" and post = "[]", OF _ quiet loud prep]
    obtain p where launched: "fst (start_impl_launch (test_env (Inr (guest (Some 0) (Some 0) (Some 0) (Some 0))) [ReadyReadStandardError ''noise'', Finished (exited 9)] None)
           (snd (start_impl_prepare (test_env (Inr (guest (Some 0) (Some 0) (Some 0) (Some 0))) [ReadyReadStandardError ''noise'', Finished (exited 9)] None) server 300000 (fresh (test_env (Inr (guest (Some 0) (Some 0) (Some 0) (Some 0))) [ReadyReadStandardError ''noise'', Finished (exited 9)] None)))))"
      and proc: "process (snd (start_impl_launch (test_env (Inr (guest (Some 0) (Some 0) (Some 0) (Some 0))) [ReadyReadStandardError ''noise'', Finished (exited 9)] None)
           (snd (start_impl_prepare (test_env (Inr (guest (Some 0) (Some 0) (Some 0) (Some 0))) [ReadyReadStandardError ''noise'', Finished (exited 9)] None) server 300000 (fresh (test_env (Inr (guest (Some 0) (Some 0) (Some 0) (Some 0))) [ReadyReadStandardError ''noise'', Finished (exited 9)] None)))))) = Some p"
      and st: "pstate p = exited 9"
      by auto
    from start_impl_exit_state [OF prep launched proc, where c = 9] st show ?thesis
      by (simp add: exited_fields)
  qed
  have one: "fst (start_impl (test_env (Inr (guest (Some 0) (Some 0) (Some 0) (Some 0))) [ReadyReadStandardError ''boom'', Finished (exited 1)] None) server 300000 (fresh (test_env (Inr (guest (Some 0) (Some 0) (Some 0) (Some 0))) [ReadyReadStandardError ''boom'', Finished (exited 1)] None))) =
     Some (Inl (runtime_error (''exit code'' @ '': '' @ ''boom'')))"
  proof -
    note prep = prepare_ready [where c = "Some 0" and d = "Some 0"
        and evs = "[ReadyReadStandardError ''boom'', Finished (exited 1)]" and delay = None
        and srv = server and timeout = 300000]
    from child_launch [where pre = "[ReadyReadStandardError ''boom'']"
        and ev = "Finished (exited 1)" and post = "[]", OF _ quiet loud prep]
    obtain p where launched: "fst (start_impl_launch (test_env (Inr (guest (Some 0) (Some 0) (Some 0) (Some 0))) [ReadyReadStandardError ''boom'', Finished (exited 1)] None)
           (snd (start_impl_prepare (test_env (Inr (guest (Some 0) (Some 0) (Some 0) (Some 0))) [ReadyReadStandardError ''boom'', Finished (exited 1)] None) server 300000 (fresh (test_env (Inr (guest (Some 0) (Some 0) (Some 0) (Some 0))) [ReadyReadStandardError ''boom'', Finished (exited 1)] None)))))"
      and proc: "process (snd (start_impl_launch (test_env (Inr (guest (Some 0) (Some 0) (Some 0) (Some 0))) [ReadyReadStandardError ''boom'', Finished (exited 1)] None)
           (snd (start_impl_prepare (test_env (Inr (guest (Some 0) (Some 0) (Some 0) (Some 0))) [ReadyReadStandardError ''boom'', Finished (exited 1)] None) server 300000 (fresh (test_env (Inr (guest (Some 0) (Some 0) (Some 0) (Some 0))) [ReadyReadStandardError ''boom'', Finished (exited 1)] None)))))) = Some p"
      and st: "pstate p = exited 1" and err: "stderr_buf p = ''boom''"
      by auto
    from start_impl_exit_state [OF prep launched proc, where c = 1] st err show ?thesis
      by (simp add: exited_fields)
  qed
  have crash: "fst (start_impl (test_env (Inr (guest (Some 0) (Some 0) (Some 0) (Some 0))) [Finished crashed] None) server 300000 (fresh (test_env (Inr (guest (Some 0) (Some 0) (Some 0) (Some 0))) [Finished crashed] None))) =
     Some (Inl (runtime_error (''Process crashed'' @ '': '' @ [])))"
  proof -
    note prep = prepare_ready [where c = "Some 0" and d = "Some 0"
        and evs = "[Finished crashed]" and delay = None
        and srv = server and timeout = 300000]
    from child_launch [where pre = "[]"
        and ev = "Finished crashed" and post = "[]", OF _ _ loud prep]
    obtain p where launched: "fst (start_impl_launch (test_env (Inr (guest (Some 0) (Some 0) (Some 0) (Some 0))) [Finished crashed] None)
           (snd (start_impl_prepare (test_env (Inr (guest (Some 0) (Some 0) (Some 0) (Some 0))) [Finished crashed] None) server 300000 (fresh (test_env (Inr (guest (Some 0) (Some 0) (Some 0) (Some 0))) [Finished crashed] None)))))"
      and proc: "process (snd (start_impl_launch (test_env (Inr (guest (Some 0) (Some 0) (Some 0) (Some 0))) [Finished crashed] None)
           (snd (start_impl_prepare (test_env (Inr (guest (Some 0) (Some 0) (Some 0) (Some 0))) [Finished crashed] None) server 300000 (fresh (test_env (Inr (guest (Some 0) (Some 0) (Some 0) (Some 0))) [Finished crashed] None)))))) = Some p"
      and st: "pstate p = crashed" and err: "stderr_buf p = []"
      by auto
    from start_impl_exit_state [OF prep launched proc, where c = 1] st err show ?thesis
      by (simp add: crashed_fields)
  qed
  from nine one crash show ?thesis by blast
qed


theorem start_impl_installs_iff_not_ready_witness:
  "progress_and_install (trace (snd (start_impl (test_env (Inr (guest (Some 0) (Some 0) (Some 0) (Some 0))) [ReadyReadStandardOutput ''Connected''] None) server 300000 (fresh (test_env (Inr (guest (Some 0) (Some 0) (Some 0) (Some 0))) [ReadyReadStandardOutput ''Connected''] None))))) = [] \<and>
   progress_and_install (trace (snd (start_impl (test_env (Inr (guest (Some 0) (Some 1) (Some 0) (Some 0))) [ReadyReadStandardOutput ''Connected''] None) server 300000 (fresh (test_env (Inr (guest (Some 0) (Some 1) (Some 0) (Some 0))) [ReadyReadStandardOutput ''Connected''] None))))) =
     [Write ''Enabling support for mounting'', Exec ''sudo snap install multipass-sshfs''] \<and>
   progress_and_install (trace (snd (start_impl (test_env (Inr (guest (Some 0) (Some 1) (Some 0) (Some 0))) [ReadyReadStandardOutput ''Connected''] None) null_server 300000 (fresh (test_env (Inr (guest (Some 0) (Some 1) (Some 0) (Some 0))) [ReadyReadStandardOutput ''Connected''] None))))) =
     [Exec ''sudo snap install multipass-sshfs''] \<and>
   progress_and_install (trace (snd (start_impl (test_env (Inr (guest (Some 1) (Some 0) (Some 0) (Some 0))) [ReadyReadStandardOutput ''Connected''] None) server 300000 (fresh (test_env (Inr (guest (Some 1) (Some 0) (Some 0) (Some 0))) [ReadyReadStandardOutput ''Connected''] None))))) = [] \<and>
   progress_and_install (trace (snd (start_impl (test_env (Inl ''Connection refused'') [ReadyReadStandardOutput ''Connected''] None) server 300000 (fresh (test_env (Inl ''Connection refused'') [ReadyReadStandardOutput ''Connected''] None))))) = []"
proof -
  have installable:
    "fst (has_sshfs e name (guest (Some 0) (Some 1) (Some 0) (Some 0)) []) = Inr False"
    for e name
    by (simp add: guest_installable)
  have no_snap:
    "fst (has_sshfs e name (guest (Some 1) (Some 0) (Some 0) (Some 0)) []) =
       Inl (runtime_error (snap_missing_message name))"
    for e name
    by (simp add: guest_no_snap)
  note ready = start_impl_installs_iff_not_ready [where e = "(test_env (Inr (guest (Some 0) (Some 0) (Some 0) (Some 0))) [ReadyReadStandardOutput ''Connected''] None)"
      and st = "fresh (test_env (Inr (guest (Some 0) (Some 0) (Some 0) (Some 0))) [ReadyReadStandardOutput ''Connected''] None)" and srv = server and timeout = 300000]
  note told = start_impl_installs_iff_not_ready [where e = "(test_env (Inr (guest (Some 0) (Some 1) (Some 0) (Some 0))) [ReadyReadStandardOutput ''Connected''] None)"
      and st = "fresh (test_env (Inr (guest (Some 0) (Some 1) (Some 0) (Some 0))) [ReadyReadStandardOutput ''Connected''] None)" and srv = server and timeout = 300000]
  note untold = start_impl_installs_iff_not_ready [where e = "(test_env (Inr (guest (Some 0) (Some 1) (Some 0) (Some 0))) [ReadyReadStandardOutput ''Connected''] None)"
      and st = "fresh (test_env (Inr (guest (Some 0) (Some 1) (Some 0) (Some 0))) [ReadyReadStandardOutput ''Connected''] None)" and srv = null_server and timeout = 300000]
  note thrown = start_impl_installs_iff_not_ready [where e = "(test_env (Inr (guest (Some 1) (Some 0) (Some 0) (Some 0))) [ReadyReadStandardOutput ''Connected''] None)"
      and st = "fresh (test_env (Inr (guest (Some 1) (Some 0) (Some 0) (Some 0))) [ReadyReadStandardOutput ''Connected''] None)" and srv = server and timeout = 300000]
  note refused = start_impl_installs_iff_not_ready [where e = "(test_env (Inl ''Connection refused'') [ReadyReadStandardOutput ''Connected''] None)"
      and st = "fresh (test_env (Inl ''Connection refused'') [ReadyReadStandardOutput ''Connected''] None)" and srv = server and timeout = 300000]
  show ?thesis
    using ready told untold thrown refused
    by (simp add: fresh_fields test_env_fields guest_ready installable no_snap)
qed

theorem host_resolved_before_launch_witness:
  "host (config (fresh (test_env (Inr (guest (Some 0) (Some 0) (Some 0) (Some 0))) [ReadyReadStandardOutput ''Connected''] None))) = [] \<and>
   sessions (trace (snd (start_impl (test_env (Inr (guest (Some 0) (Some 0) (Some 0) (Some 0))) [ReadyReadStandardOutput ''Connected''] None) server 300000 (fresh (test_env (Inr (guest (Some 0) (Some 0) (Some 0) (Some 0))) [ReadyReadStandardOutput ''Connected''] None))))) = [''10.0.0.1''] \<and>
   host_queries (trace (snd (start_impl (test_env (Inr (guest (Some 0) (Some 0) (Some 0) (Some 0))) [ReadyReadStandardOutput ''Connected''] None) server 300000 (fresh (test_env (Inr (guest (Some 0) (Some 0) (Some 0) (Some 0))) [ReadyReadStandardOutput ''Connected''] None))))) = 2 \<and>
   map host (made (trace (snd (start_impl (test_env (Inr (guest (Some 0) (Some 0) (Some 0) (Some 0))) [ReadyReadStandardOutput ''Connected''] None) server 300000 (fresh (test_env (Inr (guest (Some 0) (Some 0) (Some 0) (Some 0))) [ReadyReadStandardOutput ''Connected''] None)))))) = [''10.0.0.2''] \<and>
   host (config (snd (start_impl (test_env (Inr (guest (Some 0) (Some 0) (Some 0) (Some 0))) [ReadyReadStandardOutput ''Connected''] None) server 300000 (fresh (test_env (Inr (guest (Some 0) (Some 0) (Some 0) (Some 0))) [ReadyReadStandardOutput ''Connected''] None))))) = ''10.0.0.2'' \<and>
   host_queries (trace (snd (start_impl (test_env (Inl ''Connection refused'') [ReadyReadStandardOutput ''Connected''] None) server 300000 (fresh (test_env (Inl ''Connection refused'') [ReadyReadStandardOutput ''Connected''] None))))) = 1 \<and>
   made (trace (snd (start_impl (test_env (Inl ''Connection refused'') [ReadyReadStandardOutput ''Connected''] None) server 300000 (fresh (test_env (Inl ''Connection refused'') [ReadyReadStandardOutput ''Connected''] None))))) = []"
proof -
  note prep = prepare_ready [where c = "Some 0" and d = "Some 0"
      and evs = "[ReadyReadStandardOutput ''Connected'']" and delay = None and srv = server and timeout = 300000]
  have refused: "fst (start_impl_prepare (test_env (Inl ''Connection refused'') [ReadyReadStandardOutput ''Connected''] None) server 300000 (fresh (test_env (Inl ''Connection refused'') [ReadyReadStandardOutput ''Connected''] None))) =
      Inl (session_failure ''Connection refused'')"
    by (simp add: start_impl_prepare_result test_env_fields)
  note up = host_resolved_before_launch [where e = "(test_env (Inr (guest (Some 0) (Some 0) (Some 0) (Some 0))) [ReadyReadStandardOutput ''Connected''] None)" and tgt = "''/mnt/data''"
      and mnt = test_mount and tr = "[]" and n = 0 and srv = server and timeout = 300000
      and st = "fresh (test_env (Inr (guest (Some 0) (Some 0) (Some 0) (Some 0))) [ReadyReadStandardOutput ''Connected''] None)" and f = SSHFSMissingError]
  note down = host_resolved_before_launch [where e = "(test_env (Inl ''Connection refused'') [ReadyReadStandardOutput ''Connected''] None)" and tgt = "''/mnt/data''"
      and mnt = test_mount and tr = "[]" and n = 0 and srv = server and timeout = 300000
      and st = "fresh (test_env (Inl ''Connection refused'') [ReadyReadStandardOutput ''Connected''] None)" and f = "session_failure ''Connection refused''"]
  show ?thesis
    using up down prep refused
    by (simp add: fresh_fields test_env_fields test_vm_fields fresh_def [symmetric])
qed

text \<open>
  A start that succeeds asks the machine for its host twice: the session is opened to the
  first answer, the process is configured with the second.
\<close>

theorem host_queried_twice_counterexample:
  "fst (start_impl (test_env (Inr (guest (Some 0) (Some 0) (Some 0) (Some 0))) [ReadyReadStandardOutput ''Connected''] None) server 300000 (fresh (test_env (Inr (guest (Some 0) (Some 0) (Some 0) (Some 0))) [ReadyReadStandardOutput ''Connected''] None))) = Some (Inr ()) \<and>
   host_queries (trace (snd (start_impl (test_env (Inr (guest (Some 0) (Some 0) (Some 0) (Some 0))) [ReadyReadStandardOutput ''Connected''] None) server 300000 (fresh (test_env (Inr (guest (Some 0) (Some 0) (Some 0) (Some 0))) [ReadyReadStandardOutput ''Connected''] None))))) = 2 \<and>
   sessions (trace (snd (start_impl (test_env (Inr (guest (Some 0) (Some 0) (Some 0) (Some 0))) [ReadyReadStandardOutput ''Connected''] None) server 300000 (fresh (test_env (Inr (guest (Some 0) (Some 0) (Some 0) (Some 0))) [ReadyReadStandardOutput ''Connected''] None))))) = [''10.0.0.1''] \<and>
   map host (made (trace (snd (start_impl (test_env (Inr (guest (Some 0) (Some 0) (Some 0) (Some 0))) [ReadyReadStandardOutput ''Connected''] None) server 300000 (fresh (test_env (Inr (guest (Some 0) (Some 0) (Some 0) (Some 0))) [ReadyReadStandardOutput ''Connected''] None)))))) = [''10.0.0.2'']"
proof -
  note prep = prepare_ready [where c = "Some 0" and d = "Some 0"
      and evs = "[ReadyReadStandardOutput ''Connected'']" and delay = None and srv = server and timeout = 300000]
  have loud: "fires (ReadyReadStandardOutput ''Connected'')"
    by (simp add: fires_def)
  from child_launch [where pre = "[]" and ev = "ReadyReadStandardOutput ''Connected''"
      and post = "[]", OF _ _ loud prep]
  obtain p where launched: "fst (start_impl_launch (test_env (Inr (guest (Some 0) (Some 0) (Some 0) (Some 0))) [ReadyReadStandardOutput ''Connected''] None)
         (snd (start_impl_prepare (test_env (Inr (guest (Some 0) (Some 0) (Some 0) (Some 0))) [ReadyReadStandardOutput ''Connected''] None) server 300000 (fresh (test_env (Inr (guest (Some 0) (Some 0) (Some 0) (Some 0))) [ReadyReadStandardOutput ''Connected''] None)))))"
    and proc: "process (snd (start_impl_launch (test_env (Inr (guest (Some 0) (Some 0) (Some 0) (Some 0))) [ReadyReadStandardOutput ''Connected''] None)
         (snd (start_impl_prepare (test_env (Inr (guest (Some 0) (Some 0) (Some 0) (Some 0))) [ReadyReadStandardOutput ''Connected''] None) server 300000 (fresh (test_env (Inr (guest (Some 0) (Some 0) (Some 0) (Some 0))) [ReadyReadStandardOutput ''Connected''] None)))))) = Some p"
    and st: "pstate p = running"
    by auto
  have "fst (start_impl_check (snd (start_impl_launch (test_env (Inr (guest (Some 0) (Some 0) (Some 0) (Some 0))) [ReadyReadStandardOutput ''Connected''] None)
         (snd (start_impl_prepare (test_env (Inr (guest (Some 0) (Some 0) (Some 0) (Some 0))) [ReadyReadStandardOutput ''Connected''] None) server 300000 (fresh (test_env (Inr (guest (Some 0) (Some 0) (Some 0) (Some 0))) [ReadyReadStandardOutput ''Connected''] None))))))) = Inr ()"
    using start_impl_check_running [OF proc] st by (simp add: running_fields)
  then have returned: "fst (start_impl (test_env (Inr (guest (Some 0) (Some 0) (Some 0) (Some 0))) [ReadyReadStandardOutput ''Connected''] None) server 300000 (fresh (test_env (Inr (guest (Some 0) (Some 0) (Some 0) (Some 0))) [ReadyReadStandardOutput ''Connected''] None))) = Some (Inr ())"
    using launched by (simp add: start_impl_launched [OF prep])
  show ?thesis
    using returned prep
    by (simp add: start_impl_readers fresh_fields test_env_fields test_vm_fields)
qed

theorem start_impl_fails_before_launch_witness:
  "process (fresh (test_env (Inl ''Connection refused'') [ReadyReadStandardOutput ''Connected''] None)) = None \<and>
   fst (start_impl (test_env (Inl ''Connection refused'') [ReadyReadStandardOutput ''Connected''] None) server 300000 (fresh (test_env (Inl ''Connection refused'') [ReadyReadStandardOutput ''Connected''] None))) = Some (Inl (session_failure ''Connection refused'')) \<and>
   process (snd (start_impl (test_env (Inl ''Connection refused'') [ReadyReadStandardOutput ''Connected''] None) server 300000 (fresh (test_env (Inl ''Connection refused'') [ReadyReadStandardOutput ''Connected''] None)))) = None \<and>
   launches (trace (snd (start_impl (test_env (Inl ''Connection refused'') [ReadyReadStandardOutput ''Connected''] None) server 300000 (fresh (test_env (Inl ''Connection refused'') [ReadyReadStandardOutput ''Connected''] None))))) = [] \<and>
   fst (start_impl (test_env (Inr (guest (Some 1) (Some 0) (Some 0) (Some 0))) [ReadyReadStandardOutput ''Connected''] None) server 300000 (fresh (test_env (Inr (guest (Some 1) (Some 0) (Some 0) (Some 0))) [ReadyReadStandardOutput ''Connected''] None))) = Some (Inl (runtime_error (snap_missing_message ''primary''))) \<and>
   process (snd (start_impl (test_env (Inr (guest (Some 1) (Some 0) (Some 0) (Some 0))) [ReadyReadStandardOutput ''Connected''] None) server 300000 (fresh (test_env (Inr (guest (Some 1) (Some 0) (Some 0) (Some 0))) [ReadyReadStandardOutput ''Connected''] None)))) = None \<and>
   launches (trace (snd (start_impl (test_env (Inr (guest (Some 1) (Some 0) (Some 0) (Some 0))) [ReadyReadStandardOutput ''Connected''] None) server 300000 (fresh (test_env (Inr (guest (Some 1) (Some 0) (Some 0) (Some 0))) [ReadyReadStandardOutput ''Connected''] None))))) = [] \<and>
   fst (start_impl (test_env (Inr (guest (Some 0) (Some 1) (Some 0) (Some 1))) [ReadyReadStandardOutput ''Connected''] None) server 300000 (fresh (test_env (Inr (guest (Some 0) (Some 1) (Some 0) (Some 1))) [ReadyReadStandardOutput ''Connected''] None))) = Some (Inl SSHFSMissingError) \<and>
   process (snd (start_impl (test_env (Inr (guest (Some 0) (Some 1) (Some 0) (Some 1))) [ReadyReadStandardOutput ''Connected''] None) server 300000 (fresh (test_env (Inr (guest (Some 0) (Some 1) (Some 0) (Some 1))) [ReadyReadStandardOutput ''Connected''] None)))) = None \<and>
   launches (trace (snd (start_impl (test_env (Inr (guest (Some 0) (Some 1) (Some 0) (Some 1))) [ReadyReadStandardOutput ''Connected''] None) server 300000 (fresh (test_env (Inr (guest (Some 0) (Some 1) (Some 0) (Some 1))) [ReadyReadStandardOutput ''Connected''] None))))) = []"
proof -
  note a = start_impl_fails_before_launch [where e = "(test_env (Inl ''Connection refused'') [ReadyReadStandardOutput ''Connected''] None)" and tgt = "''/mnt/data''"
      and mnt = test_mount and tr = "[]" and n = 0 and srv = server and timeout = 300000
      and st = "fresh (test_env (Inl ''Connection refused'') [ReadyReadStandardOutput ''Connected''] None)" and msg = "''Connection refused''" and session = "guest (Some 0) (Some 0) (Some 0) (Some 0)"
      and f = SSHFSMissingError]
  note b = start_impl_fails_before_launch [where e = "(test_env (Inr (guest (Some 1) (Some 0) (Some 0) (Some 0))) [ReadyReadStandardOutput ''Connected''] None)" and tgt = "''/mnt/data''"
      and mnt = test_mount and tr = "[]" and n = 0 and srv = server and timeout = 300000
      and st = "fresh (test_env (Inr (guest (Some 1) (Some 0) (Some 0) (Some 0))) [ReadyReadStandardOutput ''Connected''] None)" and msg = "[]" and session = "guest (Some 1) (Some 0) (Some 0) (Some 0)"
      and f = "runtime_error (snap_missing_message ''primary'')"]
  note c = start_impl_fails_before_launch [where e = "(test_env (Inr (guest (Some 0) (Some 1) (Some 0) (Some 1))) [ReadyReadStandardOutput ''Connected''] None)" and tgt = "''/mnt/data''"
      and mnt = test_mount and tr = "[]" and n = 0 and srv = server and timeout = 300000
      and st = "fresh (test_env (Inr (guest (Some 0) (Some 1) (Some 0) (Some 1))) [ReadyReadStandardOutput ''Connected''] None)" and msg = "[]" and session = "guest (Some 0) (Some 1) (Some 0) (Some 1)"
      and f = SSHFSMissingError]
  show ?thesis
    using a b c
    by (simp add: test_env_fields test_vm_fields fresh_fields guest_no_snap guest_installable
          guest_install_result)
qed

end
